theory Spec2Isabelle
  imports Complex_Main "HOL-Library.AList" "HOL-Library.Monad_Syntax"
begin

section \<open>JavaScript values as the handlers see them\<close>

text \<open>
  \<^verbatim>\<open>server.js\<close> holds two variants of the same REST backend: a document-collection
  (Mongoose) variant and a flat-file (\<^verbatim>\<open>data.json\<close>) variant. Both parse the multipart
  field \<^verbatim>\<open>meal\<close> with \<^verbatim>\<open>JSON.parse\<close>, so a meal is an arbitrary JSON value.
  A JavaScript value that may be \<^verbatim>\<open>undefined\<close> is a \<open>json option\<close> with \<open>None\<close>
  for \<^verbatim>\<open>undefined\<close>. Numbers are only ever tested for truthiness, so a JSON number is
  kept as a rational.
\<close>

datatype json =
    JNull
  | JBool bool
  | JNum rat
  | JStr string
  | JArr "json list"
  | JObj "(string \<times> json) list"

text \<open>
  What a \<^verbatim>\<open>try\<close> block of the server can catch. \<open>Thrown msg\<close> is
  \<^verbatim>\<open>new Error(msg)\<close>; \<open>FsError\<close> is an exception of \<^verbatim>\<open>fs.unlinkSync\<close>
  (EISDIR, EPERM, EACCES); the last four are rejections of Mongoose calls.
\<close>

datatype js_error =
    SyntaxError
  | TypeError
  | Thrown string
  | FsError
  | CastError
  | ValidationError
  | MongoError
  | ObjectParameterError

text \<open>JavaScript truthiness: \<^verbatim>\<open>if (v)\<close> and \<^verbatim>\<open>!v\<close>.\<close>

fun truthy :: "json \<Rightarrow> bool" where
  "truthy JNull = False"
| "truthy (JBool b) = b"
| "truthy (JNum n) = (n \<noteq> 0)"
| "truthy (JStr s) = (s \<noteq> [])"
| "truthy (JArr xs) = True"
| "truthy (JObj kvs) = True"

definition truthy_opt :: "json option \<Rightarrow> bool" where
  "truthy_opt v = (case v of None \<Rightarrow> False | Some j \<Rightarrow> truthy j)"

text \<open>
  Reading a data property \<^verbatim>\<open>v[k]\<close> (for the keys the server reads: \<^verbatim>\<open>photo\<close>,
  \<^verbatim>\<open>name\<close>, \<^verbatim>\<open>description\<close>): a TypeError on \<^verbatim>\<open>null\<close>, the stored value on an
  object, \<^verbatim>\<open>undefined\<close> on a freshly parsed array or primitive.
\<close>

fun get_prop :: "json \<Rightarrow> string \<Rightarrow> js_error + json option" where
  "get_prop JNull k = Inl TypeError"
| "get_prop (JObj kvs) k = Inr (map_of kvs k)"
| "get_prop (JBool b) k = Inr None"
| "get_prop (JNum n) k = Inr None"
| "get_prop (JStr s) k = Inr None"
| "get_prop (JArr xs) k = Inr None"

text \<open>
  The assignment \<^verbatim>\<open>v.k = x\<close> in a non-strict CommonJS module, seen through the only
  observer the server has, \<^verbatim>\<open>JSON.stringify\<close> (in \<^verbatim>\<open>writeData\<close> and \<^verbatim>\<open>res.json\<close>):
  a TypeError on \<^verbatim>\<open>null\<close>; on an object the key is set, and a key set to
  \<^verbatim>\<open>undefined\<close> is not serialised; a named property of an array is not serialised;
  on a primitive the assignment is silently dropped.
\<close>

definition assign_key :: "(string \<times> json) list \<Rightarrow> string \<Rightarrow> json option \<Rightarrow> (string \<times> json) list" where
  "assign_key kvs k x = (case x of None \<Rightarrow> AList.delete k kvs | Some y \<Rightarrow> AList.update k y kvs)"

fun assign_prop :: "json \<Rightarrow> string \<Rightarrow> json option \<Rightarrow> js_error + json" where
  "assign_prop JNull k x = Inl TypeError"
| "assign_prop (JObj kvs) k x = Inr (JObj (assign_key kvs k x))"
| "assign_prop (JBool b) k x = Inr (JBool b)"
| "assign_prop (JNum n) k x = Inr (JNum n)"
| "assign_prop (JStr s) k x = Inr (JStr s)"
| "assign_prop (JArr xs) k x = Inr (JArr xs)"

text \<open>\<^verbatim>\<open>xs[i]\<close> on an array: \<^verbatim>\<open>undefined\<close> outside the array.\<close>

definition js_index :: "'a list \<Rightarrow> int \<Rightarrow> 'a option" where
  "js_index xs i = (if 0 \<le> i \<and> i < int (length xs) then Some (xs ! nat i) else None)"

text \<open>\<^verbatim>\<open>xs.splice(i, 1)\<close> for an index inside the array.\<close>

definition splice1 :: "'a list \<Rightarrow> nat \<Rightarrow> 'a list" where
  "splice1 xs i = take i xs @ drop (Suc i) xs"

subsection \<open>\<^verbatim>\<open>validateMeal\<close>\<close>

text \<open>
  \<^verbatim>\<open>
  function validateMeal(meal) {
    const requiredFields = ['name', 'description'];
    for (const field of requiredFields) {
      if (!meal[field]) { throw new Error(`Missing required field: ${field}`); }
    }
    return true;
  }
  \<close>
  The function is defined in both variants; no route calls it.
\<close>

fun validate_fields :: "json \<Rightarrow> string list \<Rightarrow> js_error + bool" where
  "validate_fields meal [] = Inr True"
| "validate_fields meal (field # fields) =
     (case get_prop meal field of
        Inl e \<Rightarrow> Inl e
      | Inr v \<Rightarrow>
          if \<not> truthy_opt v then Inl (Thrown (''Missing required field: '' @ field))
          else validate_fields meal fields)"

definition validateMeal :: "json \<Rightarrow> js_error + bool" where
  "validateMeal meal = validate_fields meal [''name'', ''description'']"

subsection \<open>\<^verbatim>\<open>parseInt\<close>\<close>

text \<open>
  \<^verbatim>\<open>parseInt(req.params.id)\<close> with no radix: leading white space is skipped, then an
  optional sign, then an optional \<^verbatim>\<open>0x\<close>/\<^verbatim>\<open>0X\<close> prefix (radix 16, else 10), then the
  longest run of digits of the radix; no digit gives \<^verbatim>\<open>NaN\<close> (\<open>None\<close>). Characters are
  code units below 256, so the white space is TAB, LF, VT, FF, CR, SP and NBSP. The
  result is compared with an array length only, where the rounding of a double beyond
  \<open>2 ^ 53\<close> changes nothing, so the value is an \<open>int\<close>.
\<close>

definition is_space :: "char \<Rightarrow> bool" where
  "is_space c = (let n = (of_char c :: nat) in (9 \<le> n \<and> n \<le> 13) \<or> n = 32 \<or> n = 160)"

definition digit_val :: "nat \<Rightarrow> char \<Rightarrow> nat option" where
  "digit_val radix c =
     (let n = (of_char c :: nat);
          d = (if 48 \<le> n \<and> n \<le> 57 then Some (n - 48)
               else if 97 \<le> n \<and> n \<le> 122 then Some (n - 87)
               else if 65 \<le> n \<and> n \<le> 90 then Some (n - 55)
               else None)
      in case d of None \<Rightarrow> None | Some v \<Rightarrow> if v < radix then Some v else None)"

fun digits :: "nat \<Rightarrow> string \<Rightarrow> nat option \<Rightarrow> nat option" where
  "digits radix [] acc = acc"
| "digits radix (c # cs) acc =
     (case digit_val radix c of
        None \<Rightarrow> acc
      | Some d \<Rightarrow> digits radix cs (Some (radix * (case acc of None \<Rightarrow> 0 | Some a \<Rightarrow> a) + d)))"

definition strip_sign :: "string \<Rightarrow> bool \<times> string" where
  "strip_sign s =
     (case s of
        [] \<Rightarrow> (False, s)
      | c # t \<Rightarrow> if c = CHR ''-'' then (True, t) else if c = CHR ''+'' then (False, t) else (False, s))"

definition strip_radix :: "string \<Rightarrow> nat \<times> string" where
  "strip_radix s =
     (case s of
        c # d # t \<Rightarrow> if c = CHR ''0'' \<and> (d = CHR ''x'' \<or> d = CHR ''X'') then (16, t) else (10, s)
      | _ \<Rightarrow> (10, s))"

definition parseInt :: "string \<Rightarrow> int option" where
  "parseInt s =
     (let (neg, s1) = strip_sign (dropWhile is_space s);
          (radix, s2) = strip_radix s1
      in map_option (\<lambda>n. if neg then - int n else int n) (digits radix s2 None))"

text \<open>
  \<^verbatim>\<open>mealIndex >= 0 && mealIndex < data.meals.length\<close>; every comparison with NaN is
  false, so inside the branch this test guards \<^verbatim>\<open>mealIndex\<close> is a number (written
  \<open>the mealIndex\<close> in the handlers).
\<close>

definition in_range :: "int option \<Rightarrow> 'a list \<Rightarrow> bool" where
  "in_range mealIndex xs =
     (case mealIndex of None \<Rightarrow> False | Some i \<Rightarrow> 0 \<le> i \<and> i < int (length xs))"

section \<open>The uploads directory\<close>

text \<open>
  The files under the server's directory other than \<^verbatim>\<open>data.json\<close>, named by the
  reference the records store (\<^verbatim>\<open>/uploads/<filename>\<close>, which
  \<^verbatim>\<open>path.join(__dirname, photo)\<close> resolves; the normalisation of \<^verbatim>\<open>..\<close> is not
  modelled). \<^verbatim>\<open>fs.existsSync\<close> is true of every node; \<^verbatim>\<open>fs.unlinkSync\<close> removes a
  regular file and throws on a directory or on a file it may not remove.
\<close>

datatype fs_node = RegularFile | ProtectedFile | Directory

type_synonym assets = "string \<Rightarrow> fs_node option"

text \<open>
  The block both variants run on the stored \<^verbatim>\<open>photo\<close> before replacing or deleting
  a meal:
  \<^verbatim>\<open>
  if (photo) {
    const p = path.join(__dirname, photo);
    if (fs.existsSync(p)) { fs.unlinkSync(p); }
  }
  \<close>
  \<^verbatim>\<open>path.join\<close> throws a TypeError on an argument that is not a string.
\<close>

definition unlink_photo :: "json option \<Rightarrow> assets \<Rightarrow> js_error + assets" where
  "unlink_photo photo a =
     (if \<not> truthy_opt photo then Inr a
      else case photo of
        Some (JStr p) \<Rightarrow>
          (case a p of
             None \<Rightarrow> Inr a
           | Some RegularFile \<Rightarrow> Inr (a(p := None))
           | Some ProtectedFile \<Rightarrow> Inl FsError
           | Some Directory \<Rightarrow> Inl FsError)
      | _ \<Rightarrow> Inl TypeError)"

text \<open>Both variants keep the uploads directory next to their record store.\<close>

record host =
  assets :: assets

section \<open>Responses\<close>

text \<open>
  \<open>Ok v\<close> is \<^verbatim>\<open>res.json(v)\<close> (status 200), \<open>ErrorBody msg\<close> is
  \<^verbatim>\<open>res.status(n).json({ error: msg })\<close> with a literal message, \<open>Caught e\<close> is
  \<^verbatim>\<open>res.status(n).json({ error: error.message })\<close> in a \<^verbatim>\<open>catch\<close>.
\<close>

datatype 'a reply = Ok 'a | ErrorBody string | Caught js_error | Unhandled string

record 'a response =
  status :: nat
  reply :: "'a reply"

definition ok :: "'a \<Rightarrow> 'a response" where
  "ok v = \<lparr>status = 200, reply = Ok v\<rparr>"

definition caught400 :: "js_error \<Rightarrow> 'a response" where
  "caught400 e = \<lparr>status = 400, reply = Caught e\<rparr>"

definition meal_not_found :: "'a response" where
  "meal_not_found = \<lparr>status = 404, reply = ErrorBody ''Meal not found''\<rparr>"

text \<open>
  What a handler receives once \<^verbatim>\<open>upload.single('photo')\<close> has run:
  \<open>params_id\<close> is \<^verbatim>\<open>req.params.id\<close>; \<open>body_meal\<close> is the outcome of
  \<^verbatim>\<open>JSON.parse(req.body.meal)\<close>, \<open>None\<close> when it throws (field absent or not JSON);
  \<open>body_heading\<close> is \<^verbatim>\<open>req.body.heading\<close>; \<open>uploaded\<close> is
  \<^verbatim>\<open>req.file.filename\<close>, set by the upload middleware when it stored a file.
\<close>

record request =
  params_id :: string
  body_meal :: "json option"
  body_heading :: "json option"
  uploaded :: "string option"

definition photo_ref :: "string \<Rightarrow> json" where
  "photo_ref filename = JStr (''/uploads/'' @ filename)"

section \<open>The flat-file variant\<close>

record document =
  meals :: "json list"
  headings :: "json option"

definition initialData :: document where
  "initialData = \<lparr>meals = [], headings = Some (JArr [])\<rparr>"

text \<open>
  \<^verbatim>\<open>data.json\<close>: absent, unreadable, not JSON, or the JSON text of a document (the
  server writes nothing else into it). \<open>write_faults\<close> lists the outcomes of the coming
  calls of \<^verbatim>\<open>fs.writeFileSync(DATA_FILE, ...)\<close>, \<open>True\<close> for a call that throws and
  leaves the file as it was; past the end of the list every call succeeds.
\<close>

datatype data_file = Missing | Unreadable | InvalidJSON | Stored document

record disk = host +
  data_file :: data_file
  write_faults :: "bool list"

text \<open>
  \<^verbatim>\<open>
  function writeData(data) {
    try { fs.writeFileSync(DATA_FILE, JSON.stringify(data, null, 2)); return true; }
    catch (error) { return false; }
  }
  \<close>
\<close>

definition writeData :: "document \<Rightarrow> disk \<Rightarrow> bool \<times> disk" where
  "writeData d s =
     (case write_faults s of
        [] \<Rightarrow> (True, s\<lparr>data_file := Stored d\<rparr>)
      | fault # rest \<Rightarrow>
          if fault then (False, s\<lparr>write_faults := rest\<rparr>)
          else (True, s\<lparr>data_file := Stored d, write_faults := rest\<rparr>))"

text \<open>
  \<^verbatim>\<open>
  function readData() {
    try { return JSON.parse(fs.readFileSync(DATA_FILE, 'utf8')); }
    catch (error) {
      const initialData = { meals: [], headings: [] };
      writeData(initialData);
      return initialData;
    }
  }
  \<close>
\<close>

definition readData :: "disk \<Rightarrow> document \<times> disk" where
  "readData s =
     (case data_file s of
        Stored d \<Rightarrow> (d, s)
      | _ \<Rightarrow> (initialData, snd (writeData initialData s)))"

text \<open>The common tail of the three mutating routes: save, then answer.\<close>

definition save_and_reply :: "document \<Rightarrow> json \<Rightarrow> disk \<Rightarrow> json response \<times> disk" where
  "save_and_reply d v s =
     (let (written, s') = writeData d s
      in if \<not> written then (caught400 (Thrown ''Failed to save data''), s')
         else (ok v, s'))"

text \<open>
  \<^verbatim>\<open>app.get('/api/data', ...)\<close> of the flat-file variant. \<^verbatim>\<open>readData\<close> catches
  whatever is thrown, so the 500 of this handler's own \<^verbatim>\<open>catch\<close> is never reached.
\<close>

definition flat_get_data :: "disk \<Rightarrow> document response \<times> disk" where
  "flat_get_data s = (let (d, s1) = readData s in (ok d, s1))"

text \<open>\<^verbatim>\<open>app.post('/api/meals', upload.single('photo'), ...)\<close> of the flat-file variant.\<close>

definition flat_post_meal :: "request \<Rightarrow> disk \<Rightarrow> json response \<times> disk" where
  "flat_post_meal req s =
     (let (d, s1) = readData s
      in case body_meal req of
           None \<Rightarrow> (caught400 SyntaxError, s1)
         | Some m \<Rightarrow>
             (case assign_prop m ''photo''
                     (Some (case uploaded req of Some f \<Rightarrow> photo_ref f | None \<Rightarrow> JStr ''''))
              of Inl e \<Rightarrow> (caught400 e, s1)
               | Inr m' \<Rightarrow> save_and_reply (d\<lparr>meals := meals d @ [m']\<rparr>) m' s1))"

text \<open>\<^verbatim>\<open>app.put('/api/meals/:id', upload.single('photo'), ...)\<close> of the flat-file variant.\<close>

definition flat_put_meal :: "request \<Rightarrow> disk \<Rightarrow> json response \<times> disk" where
  "flat_put_meal req s =
     (let (d, s1) = readData s;
          mealIndex = parseInt (params_id req)
      in if in_range mealIndex (meals d) then
           (case body_meal req of
              None \<Rightarrow> (caught400 SyntaxError, s1)
            | Some updatedMeal \<Rightarrow>
                (case js_index (meals d) (the mealIndex) of
                   None \<Rightarrow> (caught400 TypeError, s1)
                 | Some current \<Rightarrow>
                     (case get_prop current ''photo'' of
                        Inl e \<Rightarrow> (caught400 e, s1)
                      | Inr old \<Rightarrow>
                          (case uploaded req of
                             Some f \<Rightarrow>
                               (case unlink_photo old (assets s1) of
                                  Inl e \<Rightarrow> (caught400 e, s1)
                                | Inr a \<Rightarrow>
                                    (case assign_prop updatedMeal ''photo'' (Some (photo_ref f)) of
                                       Inl e \<Rightarrow> (caught400 e, s1\<lparr>assets := a\<rparr>)
                                     | Inr u \<Rightarrow>
                                         save_and_reply
                                           (d\<lparr>meals := (meals d)[nat (the mealIndex) := u]\<rparr>) u
                                           (s1\<lparr>assets := a\<rparr>)))
                           | None \<Rightarrow>
                               (case assign_prop updatedMeal ''photo'' old of
                                  Inl e \<Rightarrow> (caught400 e, s1)
                                | Inr u \<Rightarrow>
                                    save_and_reply
                                      (d\<lparr>meals := (meals d)[nat (the mealIndex) := u]\<rparr>) u s1)))))
         else (meal_not_found, s1))"

text \<open>\<^verbatim>\<open>app.delete('/api/meals/:id', ...)\<close> of the flat-file variant.\<close>

definition flat_delete_meal :: "request \<Rightarrow> disk \<Rightarrow> json response \<times> disk" where
  "flat_delete_meal req s =
     (let (d, s1) = readData s;
          mealIndex = parseInt (params_id req)
      in if in_range mealIndex (meals d) then
           (case js_index (meals d) (the mealIndex) of
              None \<Rightarrow> (caught400 TypeError, s1)
            | Some deletedMeal \<Rightarrow>
                (case get_prop deletedMeal ''photo'' of
                   Inl e \<Rightarrow> (caught400 e, s1)
                 | Inr old \<Rightarrow>
                     (case unlink_photo old (assets s1) of
                        Inl e \<Rightarrow> (caught400 e, s1)
                      | Inr a \<Rightarrow>
                          save_and_reply
                            (d\<lparr>meals := splice1 (meals d) (nat (the mealIndex))\<rparr>) deletedMeal
                            (s1\<lparr>assets := a\<rparr>))))
         else (meal_not_found, s1))"

section \<open>The upload middleware\<close>

text \<open>
  \<^verbatim>\<open>
  const upload = multer({
    storage: storage,
    fileFilter: (req, file, cb) => {
      if (file.mimetype.startsWith('image/')) { cb(null, true); }
      else { cb(new Error('Only image files are allowed!'), false); }
    },
    limits: { fileSize: 5 * 1024 * 1024 }
  });
  \<close>
  \<open>filename\<close> is the name the \<^verbatim>\<open>filename\<close> callback of the disk storage produced
  (\<^verbatim>\<open>Date.now()\<close>, a random number and the extension of the original name: time and
  randomness are taken as given). A part that the filter refuses is never written; a part
  that crosses the size limit is removed again by multer before it reports the error.
\<close>

record upload =
  mimetype :: string
  bytes :: nat
  filename :: string

definition startsWith :: "string \<Rightarrow> string \<Rightarrow> bool" where
  "startsWith s p = (take (length p) s = p)"

definition fileSize_limit :: nat where
  "fileSize_limit = 5 * 1024 * 1024"

definition upload_single :: "upload option \<Rightarrow> assets \<Rightarrow> string + (string option \<times> assets)" where
  "upload_single part a =
     (case part of
        None \<Rightarrow> Inr (None, a)
      | Some u \<Rightarrow>
          if \<not> startsWith (mimetype u) ''image/'' then Inl ''Only image files are allowed!''
          else if fileSize_limit < bytes u then Inl ''File too large''
          else Inr (Some (filename u), a(''/uploads/'' @ filename u \<mapsto> RegularFile)))"

text \<open>
  A route \<^verbatim>\<open>app.post(path, upload.single('photo'), handler)\<close>: the middleware hands its
  error to \<^verbatim>\<open>next(err)\<close>; the application registers no error-handling middleware, so
  the error reaches the default handler of Express, which answers 500 for an error
  that carries no status. Otherwise the handler runs with \<^verbatim>\<open>req.file\<close> set.
\<close>

definition with_upload ::
  "(request \<Rightarrow> 'z host_scheme \<Rightarrow> 'a response \<times> 'z host_scheme) \<Rightarrow>
   upload option \<Rightarrow> request \<Rightarrow> 'z host_scheme \<Rightarrow> 'a response \<times> 'z host_scheme" where
  "with_upload handler part req s =
     (case upload_single part (assets s) of
        Inl msg \<Rightarrow> (\<lparr>status = 500, reply = Unhandled msg\<rparr>, s)
      | Inr (f, a) \<Rightarrow> handler (req\<lparr>uploaded := f\<rparr>) (s\<lparr>assets := a\<rparr>))"

definition flat_POST_meals :: "upload option \<Rightarrow> request \<Rightarrow> disk \<Rightarrow> json response \<times> disk" where
  "flat_POST_meals = with_upload flat_post_meal"

definition flat_PUT_meals :: "upload option \<Rightarrow> request \<Rightarrow> disk \<Rightarrow> json response \<times> disk" where
  "flat_PUT_meals = with_upload flat_put_meal"

section \<open>The document-collection variant\<close>

text \<open>
  \<^verbatim>\<open>
  const mealSchema = new mongoose.Schema({
    name: String, description: String, photo: String, halfServe: Boolean,
    heading: { type: mongoose.Schema.Types.ObjectId, ref: 'Heading' }
  });
  \<close>
  A path of a stored document is absent, \<^verbatim>\<open>null\<close>, or a value of the type of the
  schema. The \<^verbatim>\<open>_id\<close> of a document is its key in the collection.
\<close>

datatype 'a field = Absent | Null | Val 'a

record meal_doc =
  name :: "string field"
  description :: "string field"
  photo :: "string field"
  halfServe :: "bool field"
  heading :: "string field"

definition blank_meal :: meal_doc where
  "blank_meal = \<lparr>name = Absent, description = Absent, photo = Absent, halfServe = Absent,
                  heading = Absent\<rparr>"

text \<open>What \<^verbatim>\<open>meal.photo\<close> evaluates to.\<close>

fun field_json :: "string field \<Rightarrow> json option" where
  "field_json Absent = None"
| "field_json Null = Some JNull"
| "field_json (Val s) = Some (JStr s)"

text \<open>
  Mongoose is a dependency, not code of the repository. What is the same in every
  release is written out below: \<^verbatim>\<open>null\<close> is kept by every cast, a string is kept by
  the String cast and a boolean by the Boolean cast, keys outside the schema are not
  stored (strict mode). What differs between releases is a parameter of the model:
  \<^item> \<open>coerce_String\<close>, \<open>coerce_Boolean\<close>: the cast of a value of another JSON kind
    (\<open>None\<close> is a CastError);
  \<^item> \<open>cast_ObjectId\<close>: the cast of a value to an ObjectId, given as its hexadecimal
    string (\<open>None\<close> is a CastError);
  \<^item> \<open>id_settable\<close>: whether \<^verbatim>\<open>meal.set\<close> and \<^verbatim>\<open>meal.save\<close> accept an \<^verbatim>\<open>_id\<close> key
    for a stored document;
  \<^item> \<open>set_exotic\<close>, \<open>construct_exotic\<close>: what \<^verbatim>\<open>meal.set(v)\<close> and \<^verbatim>\<open>new Meal(v)\<close>
    do with an array or a primitive \<open>v\<close>, given the values the handler assigned to
    \<^verbatim>\<open>v.photo\<close> and \<^verbatim>\<open>v.heading\<close> before.
\<close>

record mongoose =
  coerce_String :: "json \<Rightarrow> string option"
  coerce_Boolean :: "json \<Rightarrow> bool option"
  cast_ObjectId :: "json \<Rightarrow> string option"
  id_settable :: "string \<Rightarrow> json \<Rightarrow> bool"
  set_exotic :: "json \<Rightarrow> json option \<Rightarrow> meal_doc \<Rightarrow> js_error + meal_doc"
  construct_exotic :: "json \<Rightarrow> json option \<Rightarrow> json option \<Rightarrow> js_error + meal_doc"

definition cast_String :: "mongoose \<Rightarrow> json \<Rightarrow> string field option" where
  "cast_String lib v =
     (case v of
        JNull \<Rightarrow> Some Null
      | JStr s \<Rightarrow> Some (Val s)
      | _ \<Rightarrow> map_option Val (coerce_String lib v))"

definition cast_Boolean :: "mongoose \<Rightarrow> json \<Rightarrow> bool field option" where
  "cast_Boolean lib v =
     (case v of
        JNull \<Rightarrow> Some Null
      | JBool b \<Rightarrow> Some (Val b)
      | _ \<Rightarrow> map_option Val (coerce_Boolean lib v))"

definition cast_Id :: "mongoose \<Rightarrow> json \<Rightarrow> string field option" where
  "cast_Id lib v =
     (case v of
        JNull \<Rightarrow> Some Null
      | _ \<Rightarrow> map_option Val (cast_ObjectId lib v))"

text \<open>One path of \<^verbatim>\<open>meal.set(obj)\<close>: a key of \<open>obj\<close> is cast and stored, a missing key
  leaves the path as it is.\<close>

definition set_path ::
  "(json \<Rightarrow> 'a field option) \<Rightarrow> (string \<times> json) list \<Rightarrow> string \<Rightarrow> 'a field \<Rightarrow> 'a field option" where
  "set_path cast kvs k current = (case map_of kvs k of None \<Rightarrow> Some current | Some v \<Rightarrow> cast v)"

text \<open>\<^verbatim>\<open>meal.set(obj)\<close> on the five paths of the schema; \<open>None\<close> when a cast fails, which
  \<^verbatim>\<open>meal.save()\<close> then reports as a ValidationError.\<close>

definition meal_set :: "mongoose \<Rightarrow> (string \<times> json) list \<Rightarrow> meal_doc \<Rightarrow> meal_doc option" where
  "meal_set lib kvs doc =
     do {
       n \<leftarrow> set_path (cast_String lib) kvs ''name'' (name doc);
       d \<leftarrow> set_path (cast_String lib) kvs ''description'' (description doc);
       p \<leftarrow> set_path (cast_String lib) kvs ''photo'' (photo doc);
       h \<leftarrow> set_path (cast_Boolean lib) kvs ''halfServe'' (halfServe doc);
       g \<leftarrow> set_path (cast_Id lib) kvs ''heading'' (heading doc);
       Some \<lparr>name = n, description = d, photo = p, halfServe = h, heading = g\<rparr>
     }"

text \<open>
  The database: the two collections as association lists from \<^verbatim>\<open>_id\<close> to document
  (a Heading is its \<^verbatim>\<open>name\<close>), and \<open>db_faults\<close>, the outcomes of the coming round
  trips to the database, \<open>True\<close> for one that is rejected; past the end of the list
  every round trip succeeds.
\<close>

record site = host +
  meal_docs :: "(string \<times> meal_doc) list"
  heading_docs :: "(string \<times> string) list"
  db_faults :: "bool list"

definition db_call :: "site \<Rightarrow> bool \<times> site" where
  "db_call s =
     (case db_faults s of
        [] \<Rightarrow> (True, s)
      | fault # rest \<Rightarrow> (\<not> fault, s\<lparr>db_faults := rest\<rparr>))"

datatype payload = MealDoc string meal_doc | Listing "(string \<times> meal_doc) list" | Success

text \<open>\<^verbatim>\<open>Meal.findById(id)\<close>: the id is cast before the query is sent.\<close>

definition findById ::
  "mongoose \<Rightarrow> string \<Rightarrow> site \<Rightarrow> (js_error + (string \<times> meal_doc) option) \<times> site" where
  "findById lib mealId s =
     (case cast_ObjectId lib (JStr mealId) of
        None \<Rightarrow> (Inl CastError, s)
      | Some oid \<Rightarrow>
          (let (up, s') = db_call s
           in if \<not> up then (Inl MongoError, s')
              else (Inr (map_option (Pair oid) (map_of (meal_docs s') oid)), s')))"

text \<open>\<^verbatim>\<open>app.get('/api/data', ...)\<close> of the document-collection variant.\<close>

definition doc_get_data :: "site \<Rightarrow> payload response \<times> site" where
  "doc_get_data s =
     (let (up, s') = db_call s
      in if \<not> up then (\<lparr>status = 500, reply = ErrorBody ''Failed to load data''\<rparr>, s')
         else (ok (Listing (meal_docs s')), s'))"

text \<open>
  \<^verbatim>\<open>new Meal(mealData)\<close> after the handler's assignments to \<^verbatim>\<open>mealData.photo\<close> and
  \<^verbatim>\<open>mealData.heading\<close>: the \<^verbatim>\<open>_id\<close> is the generated one unless the object brings
  its own.
\<close>

definition construct ::
  "mongoose \<Rightarrow> string \<Rightarrow> json \<Rightarrow> json option \<Rightarrow> json option \<Rightarrow> js_error + (string \<times> meal_doc)" where
  "construct lib new_id mealData photo_value heading_value =
     (case mealData of
        JNull \<Rightarrow> Inl TypeError
      | JObj kvs \<Rightarrow>
          (let kvs1 = assign_key kvs ''photo'' photo_value;
               kvs2 = (if truthy_opt heading_value then assign_key kvs1 ''heading'' heading_value
                       else kvs1)
           in case (case map_of kvs2 ''_id'' of None \<Rightarrow> Some new_id | Some v \<Rightarrow> cast_ObjectId lib v) of
                None \<Rightarrow> Inl ValidationError
              | Some oid \<Rightarrow>
                  (case meal_set lib kvs2 blank_meal of
                     None \<Rightarrow> Inl ValidationError
                   | Some doc \<Rightarrow> Inr (oid, doc)))
      | _ \<Rightarrow>
          (case construct_exotic lib mealData photo_value
                  (if truthy_opt heading_value then heading_value else None) of
             Inl e \<Rightarrow> Inl e
           | Inr doc \<Rightarrow> Inr (new_id, doc)))"

text \<open>
  \<^verbatim>\<open>app.post('/api/meals', upload.single('photo'), ...)\<close> of the document-collection
  variant; \<open>new_id\<close> is the ObjectId Mongoose generates for the new document.
\<close>

definition doc_post_meal :: "mongoose \<Rightarrow> string \<Rightarrow> request \<Rightarrow> site \<Rightarrow> payload response \<times> site" where
  "doc_post_meal lib new_id req s =
     (case body_meal req of
        None \<Rightarrow> (caught400 SyntaxError, s)
      | Some mealData \<Rightarrow>
          (case construct lib new_id mealData
                  (Some (case uploaded req of Some f \<Rightarrow> photo_ref f | None \<Rightarrow> JStr ''''))
                  (body_heading req) of
             Inl e \<Rightarrow> (caught400 e, s)
           | Inr (oid, doc) \<Rightarrow>
               (let (up, s') = db_call s
                in if \<not> up then (caught400 MongoError, s')
                   else if map_of (meal_docs s') oid \<noteq> None then (caught400 MongoError, s')
                   else (ok (MealDoc oid doc), s'\<lparr>meal_docs := meal_docs s' @ [(oid, doc)]\<rparr>))))"

text \<open>
  \<^verbatim>\<open>
  updatedMealData.photo = ...;
  meal.set(updatedMealData);
  await meal.save();
  res.json(meal);
  \<close>
  \<^verbatim>\<open>save\<close> is taken to make one round trip to the database.
\<close>

definition set_and_save ::
  "mongoose \<Rightarrow> string \<Rightarrow> meal_doc \<Rightarrow> json \<Rightarrow> json option \<Rightarrow> site \<Rightarrow> payload response \<times> site" where
  "set_and_save lib oid doc updatedMealData photo_value s =
     (case (case updatedMealData of
              JNull \<Rightarrow> Inl TypeError
            | JObj kvs \<Rightarrow>
                (let kvs1 = assign_key kvs ''photo'' photo_value
                 in if \<not> (case map_of kvs1 ''_id'' of None \<Rightarrow> True | Some v \<Rightarrow> id_settable lib oid v)
                    then Inl ValidationError
                    else case meal_set lib kvs1 doc of
                           None \<Rightarrow> Inl ValidationError
                         | Some doc' \<Rightarrow> Inr doc')
            | _ \<Rightarrow> set_exotic lib updatedMealData photo_value doc) of
        Inl e \<Rightarrow> (caught400 e, s)
      | Inr doc' \<Rightarrow>
          (let (up, s') = db_call s
           in if \<not> up then (caught400 MongoError, s')
              else (ok (MealDoc oid doc'), s'\<lparr>meal_docs := AList.update oid doc' (meal_docs s')\<rparr>)))"

text \<open>\<^verbatim>\<open>app.put('/api/meals/:id', upload.single('photo'), ...)\<close> of the document-collection
  variant.\<close>

definition doc_put_meal :: "mongoose \<Rightarrow> request \<Rightarrow> site \<Rightarrow> payload response \<times> site" where
  "doc_put_meal lib req s =
     (case body_meal req of
        None \<Rightarrow> (caught400 SyntaxError, s)
      | Some updatedMealData \<Rightarrow>
          (case findById lib (params_id req) s of
             (Inl e, s1) \<Rightarrow> (caught400 e, s1)
           | (Inr None, s1) \<Rightarrow> (meal_not_found, s1)
           | (Inr (Some (oid, doc)), s1) \<Rightarrow>
               (case uploaded req of
                  Some f \<Rightarrow>
                    (case unlink_photo (field_json (photo doc)) (assets s1) of
                       Inl e \<Rightarrow> (caught400 e, s1)
                     | Inr a \<Rightarrow>
                         set_and_save lib oid doc updatedMealData (Some (photo_ref f))
                           (s1\<lparr>assets := a\<rparr>))
                | None \<Rightarrow>
                    set_and_save lib oid doc updatedMealData (field_json (photo doc)) s1)))"

text \<open>\<^verbatim>\<open>app.delete('/api/meals/:id', ...)\<close> of the document-collection variant.\<close>

definition doc_delete_meal :: "mongoose \<Rightarrow> request \<Rightarrow> site \<Rightarrow> payload response \<times> site" where
  "doc_delete_meal lib req s =
     (case findById lib (params_id req) s of
        (Inl e, s1) \<Rightarrow> (caught400 e, s1)
      | (Inr None, s1) \<Rightarrow> (meal_not_found, s1)
      | (Inr (Some (oid, doc)), s1) \<Rightarrow>
          (case unlink_photo (field_json (photo doc)) (assets s1) of
             Inl e \<Rightarrow> (caught400 e, s1)
           | Inr a \<Rightarrow>
               (let (up, s2) = db_call (s1\<lparr>assets := a\<rparr>)
                in if \<not> up then (caught400 MongoError, s2)
                   else (ok (MealDoc oid doc), s2\<lparr>meal_docs := AList.delete oid (meal_docs s2)\<rparr>))))"

text \<open>
  \<^verbatim>\<open>
  app.delete('/api/headings/:id', async (req, res) => {
    try {
      const heading = await Heading.findByIdAndDelete(req.params.id);
      if (!heading) { return res.status(404).json({ error: 'Heading not found' }); }
      res.json({ success: true });
    } catch (error) { res.status(400).json({ error: error.message }); }
  });
  \<close>
\<close>

definition doc_delete_heading :: "mongoose \<Rightarrow> request \<Rightarrow> site \<Rightarrow> payload response \<times> site" where
  "doc_delete_heading lib req s =
     (case cast_ObjectId lib (JStr (params_id req)) of
        None \<Rightarrow> (caught400 CastError, s)
      | Some oid \<Rightarrow>
          (let (up, s') = db_call s
           in if \<not> up then (caught400 MongoError, s')
              else case map_of (heading_docs s') oid of
                     None \<Rightarrow> (\<lparr>status = 404, reply = ErrorBody ''Heading not found''\<rparr>, s')
                   | Some h \<Rightarrow>
                       (ok Success, s'\<lparr>heading_docs := AList.delete oid (heading_docs s')\<rparr>)))"

definition doc_POST_meals ::
  "mongoose \<Rightarrow> string \<Rightarrow> upload option \<Rightarrow> request \<Rightarrow> site \<Rightarrow> payload response \<times> site" where
  "doc_POST_meals lib new_id = with_upload (doc_post_meal lib new_id)"

definition doc_PUT_meals ::
  "mongoose \<Rightarrow> upload option \<Rightarrow> request \<Rightarrow> site \<Rightarrow> payload response \<times> site" where
  "doc_PUT_meals lib = with_upload (doc_put_meal lib)"

section \<open>Vocabulary of the statements\<close>

text \<open>Whether \<^verbatim>\<open>fs.readFileSync\<close> and \<^verbatim>\<open>JSON.parse\<close> succeed on the data file.\<close>

fun readable :: "data_file \<Rightarrow> bool" where
  "readable (Stored d) = True"
| "readable Missing = False"
| "readable Unreadable = False"
| "readable InvalidJSON = False"

text \<open>Whether the next \<^verbatim>\<open>fs.writeFileSync\<close> on the data file throws.\<close>

definition next_write_fails :: "disk \<Rightarrow> bool" where
  "next_write_fails s = (case write_faults s of [] \<Rightarrow> False | fault # rest \<Rightarrow> fault)"

text \<open>Whether the next round trip to the database is rejected.\<close>

definition next_db_fails :: "site \<Rightarrow> bool" where
  "next_db_fails s = (case db_faults s of [] \<Rightarrow> False | fault # rest \<Rightarrow> fault)"

text \<open>
  One instance of the library parameters, for the concrete runs below: no coercion
  between JSON kinds, an ObjectId is a string of 24 hexadecimal digits, an \<^verbatim>\<open>_id\<close> key
  is accepted when it repeats the id of the document, \<^verbatim>\<open>meal.set\<close> ignores an array or
  primitive and \<^verbatim>\<open>new Meal\<close> refuses one.
\<close>

definition is_hex :: "char \<Rightarrow> bool" where
  "is_hex c = (digit_val 16 c \<noteq> None)"

definition sample_mongoose :: mongoose where
  "sample_mongoose =
     \<lparr>coerce_String = (\<lambda>v. None),
      coerce_Boolean = (\<lambda>v. None),
      cast_ObjectId = (\<lambda>v. case v of
                              JStr s \<Rightarrow> if length s = 24 \<and> list_all is_hex s then Some s else None
                            | _ \<Rightarrow> None),
      id_settable = (\<lambda>oid v. v = JStr oid),
      set_exotic = (\<lambda>v p doc. Inr doc),
      construct_exotic = (\<lambda>v p h. Inl ObjectParameterError)\<rparr>"

text \<open>
  Whether the upload middleware refuses the file part of a request (there is nothing
  to refuse in a request without one), and the uploads directory once the middleware
  has stored the part of a request it accepts.
\<close>

definition refused :: "upload option \<Rightarrow> bool" where
  "refused part =
     (case part of
        None \<Rightarrow> False
      | Some u \<Rightarrow> if startsWith (mimetype u) ''image/'' then fileSize_limit < bytes u else True)"

definition stored_upload :: "upload option \<Rightarrow> assets \<Rightarrow> assets" where
  "stored_upload part a =
     (case part of None \<Rightarrow> a | Some u \<Rightarrow> a(''/uploads/'' @ filename u \<mapsto> RegularFile))"

section \<open>\<^verbatim>\<open>readData\<close> and \<^verbatim>\<open>writeData\<close>\<close>

lemma writeData_fails:
  "next_write_fails s \<Longrightarrow> writeData d s = (False, s\<lparr>write_faults := tl (write_faults s)\<rparr>)"
  by (auto simp: writeData_def next_write_fails_def split: list.splits)

lemma writeData_succeeds:
  "\<not> next_write_fails s \<Longrightarrow>
   writeData d s = (True, s\<lparr>data_file := Stored d, write_faults := tl (write_faults s)\<rparr>)"
  by (auto simp: writeData_def next_write_fails_def split: list.splits)

lemma writeData_assets [simp]: "assets (snd (writeData d s)) = assets s"
  by (cases "next_write_fails s") (simp_all add: writeData_fails writeData_succeeds)

lemma next_write_fails_assets [simp]:
  "next_write_fails (s\<lparr>assets := a\<rparr>) = next_write_fails s"
  by (simp add: next_write_fails_def)

lemma readData_readable: "data_file s = Stored d \<Longrightarrow> readData s = (d, s)"
  by (simp add: readData_def)

lemma readData_unreadable:
  "\<not> readable (data_file s) \<Longrightarrow> readData s = (initialData, snd (writeData initialData s))"
  by (cases "data_file s") (simp_all add: readData_def)

lemma readData_assets [simp]: "assets (snd (readData s)) = assets s"
  by (cases "data_file s") (simp_all add: readData_def)

lemma readData_assets_eq: "readData s = (d, s1) \<Longrightarrow> assets s1 = assets s"
  using readData_assets [of s] by simp

lemma readData_data_file:
  "data_file (snd (readData s)) =
     (if readable (data_file s) \<or> next_write_fails s then data_file s else Stored initialData)"
  by (cases "data_file s"; cases "next_write_fails s")
     (simp_all add: readData_def writeData_fails writeData_succeeds)

lemma readData_nonempty:
  "readData s = (d, s1) \<Longrightarrow> meals d \<noteq> [] \<Longrightarrow> s1 = s \<and> data_file s = Stored d"
  by (cases "data_file s") (auto simp: readData_def initialData_def)

lemma save_and_reply_fails:
  "next_write_fails s \<Longrightarrow>
   save_and_reply d v s =
     (caught400 (Thrown ''Failed to save data''), s\<lparr>write_faults := tl (write_faults s)\<rparr>)"
  by (simp add: save_and_reply_def writeData_fails)

lemma save_and_reply_succeeds:
  "\<not> next_write_fails s \<Longrightarrow>
   save_and_reply d v s = (ok v, s\<lparr>data_file := Stored d, write_faults := tl (write_faults s)\<rparr>)"
  by (simp add: save_and_reply_def writeData_succeeds)

lemma save_and_reply_status:
  "status (fst (save_and_reply d v s)) = 200 \<or> status (fst (save_and_reply d v s)) = 400"
  by (cases "next_write_fails s")
     (simp_all add: save_and_reply_fails save_and_reply_succeeds ok_def caught400_def)

lemma save_and_reply_data_file:
  "data_file s = Stored d0 \<Longrightarrow>
   data_file (snd (save_and_reply d v s)) = Stored d0
   \<or> data_file (snd (save_and_reply d v s)) = Stored d"
  by (cases "next_write_fails s") (simp_all add: save_and_reply_fails save_and_reply_succeeds)

section \<open>Replies, properties and the database\<close>

lemma ok_neq [simp]:
  "ok v \<noteq> caught400 e" "ok v \<noteq> meal_not_found" "caught400 e \<noteq> ok v" "meal_not_found \<noteq> ok v"
  by (simp_all add: ok_def caught400_def meal_not_found_def)

lemma ok_inject [simp]: "ok v = ok w \<longleftrightarrow> v = w"
  by (simp add: ok_def)


lemma assign_prop_defined: "m \<noteq> JNull \<Longrightarrow> \<exists>u. assign_prop m k x = Inr u"
  by (cases m) simp_all

lemma map_of_assign_key:
  "map_of (assign_key kvs k x) = (map_of kvs)(k := x)"
  by (cases x) (simp_all add: assign_key_def AList.update_conv' AList.delete_conv')

lemma unlink_photo_absent: "a p = None \<Longrightarrow> unlink_photo (Some (JStr p)) a = Inr a"
  by (simp add: unlink_photo_def truthy_opt_def)

lemma db_call_fails:
  "next_db_fails s \<Longrightarrow> db_call s = (False, s\<lparr>db_faults := tl (db_faults s)\<rparr>)"
  by (auto simp: db_call_def next_db_fails_def split: list.splits)

lemma db_call_succeeds:
  "\<not> next_db_fails s \<Longrightarrow> db_call s = (True, s\<lparr>db_faults := tl (db_faults s)\<rparr>)"
  by (auto simp: db_call_def next_db_fails_def split: list.splits)

lemma findById_state:
  "findById lib i t = (r, t1) \<Longrightarrow>
   meal_docs t1 = meal_docs t \<and> heading_docs t1 = heading_docs t \<and> assets t1 = assets t"
  by (auto simp: findById_def db_call_def Let_def split: option.splits list.splits if_splits)

lemma findById_found:
  "findById lib i t = (Inr (Some (oid, doc)), t1) \<Longrightarrow> map_of (meal_docs t) oid = Some doc"
  by (auto simp: findById_def db_call_def Let_def split: option.splits list.splits if_splits)

section \<open>Facts about the concrete runs\<close>

lemma parseInt_0: "parseInt ''0'' = Some 0"
  by (simp add: parseInt_def strip_sign_def strip_radix_def is_space_def digit_val_def)

lemma sample_cast_id:
  "cast_ObjectId sample_mongoose (JStr ''65f0c0ffee65f0c0ffee0001'') = Some ''65f0c0ffee65f0c0ffee0001''"
  by (simp add: sample_mongoose_def is_hex_def digit_val_def)

section \<open>C1: \<^verbatim>\<open>validateMeal\<close> is never called\<close>

text \<open>
  C1 at the request \<^verbatim>\<open>POST /api/meals\<close> with \<^verbatim>\<open>meal={"description":"Tomato soup"}\<close>
  and no file. \<^verbatim>\<open>validateMeal\<close> would throw \<^verbatim>\<open>Missing required field: name\<close>, but the
  routes do not call it: the flat-file variant appends the record to the data file and
  answers 200, and so does the document-collection variant, whose schema requires no
  path.
\<close>

theorem post_meal_without_name_is_stored:
  "validateMeal (JObj [(''description'', JStr ''Tomato soup'')])
     = Inl (Thrown ''Missing required field: name'')
   \<and> flat_post_meal
        \<lparr>params_id = '''', body_meal = Some (JObj [(''description'', JStr ''Tomato soup'')]),
          body_heading = None, uploaded = None\<rparr>
        \<lparr>assets = Map.empty, data_file = Stored initialData, write_faults = []\<rparr>
     = (\<lparr>status = 200,
         reply = Ok (JObj [(''description'', JStr ''Tomato soup''), (''photo'', JStr '''')])\<rparr>,
        \<lparr>assets = Map.empty,
          data_file = Stored
            \<lparr>meals = [JObj [(''description'', JStr ''Tomato soup''), (''photo'', JStr '''')]],
              headings = Some (JArr [])\<rparr>,
          write_faults = []\<rparr>)
   \<and> doc_post_meal sample_mongoose ''65f0c0ffee65f0c0ffee0001''
        \<lparr>params_id = '''', body_meal = Some (JObj [(''description'', JStr ''Tomato soup'')]),
          body_heading = None, uploaded = None\<rparr>
        \<lparr>assets = Map.empty, meal_docs = [], heading_docs = [], db_faults = []\<rparr>
     = (\<lparr>status = 200,
         reply = Ok (MealDoc ''65f0c0ffee65f0c0ffee0001''
                   \<lparr>name = Absent, description = Val ''Tomato soup'', photo = Val '''',
                     halfServe = Absent, heading = Absent\<rparr>)\<rparr>,
        \<lparr>assets = Map.empty,
          meal_docs = [(''65f0c0ffee65f0c0ffee0001'',
                        \<lparr>name = Absent, description = Val ''Tomato soup'', photo = Val '''',
                          halfServe = Absent, heading = Absent\<rparr>)],
          heading_docs = [], db_faults = []\<rparr>)"
  by (simp add: validateMeal_def truthy_opt_def flat_post_meal_def readData_def initialData_def
        save_and_reply_def writeData_def ok_def doc_post_meal_def construct_def assign_key_def
        meal_set_def set_path_def cast_String_def blank_meal_def db_call_def)

section \<open>C2: a failed save is answered with 400\<close>

lemma flat_post_status:
  "status (fst (flat_post_meal req s)) = 200 \<or> status (fst (flat_post_meal req s)) = 400"
  using save_and_reply_status
  by (auto simp: flat_post_meal_def split_beta Let_def caught400_def
           split: option.splits sum.splits)

lemma flat_put_status:
  "status (fst (flat_put_meal req s)) = 200 \<or> status (fst (flat_put_meal req s)) = 400
   \<or> status (fst (flat_put_meal req s)) = 404"
  using save_and_reply_status
  by (auto simp: flat_put_meal_def split_beta Let_def caught400_def meal_not_found_def
           split: option.splits sum.splits)

lemma flat_delete_status:
  "status (fst (flat_delete_meal req s)) = 200 \<or> status (fst (flat_delete_meal req s)) = 400
   \<or> status (fst (flat_delete_meal req s)) = 404"
  using save_and_reply_status
  by (auto simp: flat_delete_meal_def split_beta Let_def caught400_def meal_not_found_def
           split: option.splits sum.splits)

lemma set_and_save_status:
  "status (fst (set_and_save lib oid doc v p s)) = 200
   \<or> status (fst (set_and_save lib oid doc v p s)) = 400"
  by (cases "next_db_fails s")
     (auto simp: set_and_save_def db_call_fails db_call_succeeds caught400_def ok_def
           split: sum.splits)

lemma doc_post_status:
  "status (fst (doc_post_meal lib nid req s)) = 200
   \<or> status (fst (doc_post_meal lib nid req s)) = 400"
  by (cases "next_db_fails s")
     (auto simp: doc_post_meal_def db_call_fails db_call_succeeds caught400_def ok_def
           split: sum.splits option.splits)

lemma doc_put_status:
  "status (fst (doc_put_meal lib req s)) = 200 \<or> status (fst (doc_put_meal lib req s)) = 400
   \<or> status (fst (doc_put_meal lib req s)) = 404"
  by (auto simp: doc_put_meal_def caught400_def meal_not_found_def
           split: sum.splits option.splits prod.splits)
     (use set_and_save_status in blast)+

lemma doc_delete_status:
  "status (fst (doc_delete_meal lib req s)) = 200 \<or> status (fst (doc_delete_meal lib req s)) = 400
   \<or> status (fst (doc_delete_meal lib req s)) = 404"
  by (auto simp: doc_delete_meal_def caught400_def meal_not_found_def ok_def db_call_def
           split: sum.splits option.splits prod.splits list.splits)

lemma doc_get_data_status:
  "status (fst (doc_get_data s)) = (if next_db_fails s then 500 else 200)"
  by (cases "next_db_fails s")
     (simp_all add: doc_get_data_def db_call_fails db_call_succeeds ok_def)

lemma flat_post_failed_save:
  assumes "readData s = (d, s1)" and "next_write_fails s1"
      and "body_meal req = Some m" and "m \<noteq> JNull"
  shows "fst (flat_post_meal req s) = caught400 (Thrown ''Failed to save data'')"
proof -
  from assign_prop_defined [OF assms(4)] obtain u where
    "assign_prop m ''photo''
       (Some (case uploaded req of Some f \<Rightarrow> photo_ref f | None \<Rightarrow> JStr '''')) = Inr u"
    by blast
  then show ?thesis
    using assms by (simp add: flat_post_meal_def save_and_reply_fails)
qed

lemma flat_put_failed_save:
  assumes "readData s = (d, s1)" and "next_write_fails s1"
      and "in_range (parseInt (params_id req)) (meals d)"
      and "js_index (meals d) (the (parseInt (params_id req))) = Some current"
      and "get_prop current ''photo'' = Inr old"
      and "uploaded req = None \<or> unlink_photo old (assets s1) = Inr a"
      and "body_meal req = Some m" and "m \<noteq> JNull"
  shows "fst (flat_put_meal req s) = caught400 (Thrown ''Failed to save data'')"
proof (cases "uploaded req")
  case None
  from assign_prop_defined [OF assms(8)] obtain u where
    "assign_prop m ''photo'' old = Inr u"
    by blast
  then show ?thesis
    using assms None by (simp add: flat_put_meal_def Let_def save_and_reply_fails)
next
  case (Some f)
  from assign_prop_defined [OF assms(8)] obtain u where
    "assign_prop m ''photo'' (Some (photo_ref f)) = Inr u"
    by blast
  then show ?thesis
    using assms Some by (simp add: flat_put_meal_def Let_def save_and_reply_fails)
qed

lemma flat_delete_failed_save:
  assumes "readData s = (d, s1)" and "next_write_fails s1"
      and "in_range (parseInt (params_id req)) (meals d)"
      and "js_index (meals d) (the (parseInt (params_id req))) = Some current"
      and "get_prop current ''photo'' = Inr old"
      and "unlink_photo old (assets s1) = Inr a"
  shows "fst (flat_delete_meal req s) = caught400 (Thrown ''Failed to save data'')"
  using assms by (simp add: flat_delete_meal_def save_and_reply_fails)

text \<open>
  C2, as the code has it. In the flat-file variant, when the handler of
  \<^verbatim>\<open>POST /api/meals\<close>, \<^verbatim>\<open>PUT /api/meals/:id\<close> or \<^verbatim>\<open>DELETE /api/meals/:id\<close> reaches its
  save and \<^verbatim>\<open>writeData\<close> returns false, the handler throws
  \<^verbatim>\<open>Error('Failed to save data')\<close> into its own \<^verbatim>\<open>catch\<close>, which answers 400. No
  handler for meals of either variant answers 500, whatever fails in it; a 500 comes
  from \<^verbatim>\<open>GET /api/data\<close> of the document-collection variant when its query is
  rejected (and from the upload middleware, C4).
\<close>

theorem failed_save_answers_400:
  "(readData s = (d, s1) \<and> next_write_fails s1 \<and> body_meal req = Some m \<and> m \<noteq> JNull
      \<longrightarrow> fst (flat_post_meal req s) = \<lparr>status = 400, reply = Caught (Thrown ''Failed to save data'')\<rparr>)
   \<and> (readData s = (d, s1) \<and> next_write_fails s1
       \<and> in_range (parseInt (params_id req)) (meals d)
       \<and> js_index (meals d) (the (parseInt (params_id req))) = Some current
       \<and> get_prop current ''photo'' = Inr old
       \<and> (uploaded req = None \<or> unlink_photo old (assets s1) = Inr a)
       \<and> body_meal req = Some m \<and> m \<noteq> JNull
      \<longrightarrow> fst (flat_put_meal req s) = \<lparr>status = 400, reply = Caught (Thrown ''Failed to save data'')\<rparr>)
   \<and> (readData s = (d, s1) \<and> next_write_fails s1
       \<and> in_range (parseInt (params_id req)) (meals d)
       \<and> js_index (meals d) (the (parseInt (params_id req))) = Some current
       \<and> get_prop current ''photo'' = Inr old
       \<and> unlink_photo old (assets s1) = Inr a
      \<longrightarrow> fst (flat_delete_meal req s) = \<lparr>status = 400, reply = Caught (Thrown ''Failed to save data'')\<rparr>)
   \<and> status (fst (flat_post_meal req s)) \<noteq> 500
   \<and> status (fst (flat_put_meal req s)) \<noteq> 500
   \<and> status (fst (flat_delete_meal req s)) \<noteq> 500
   \<and> status (fst (doc_post_meal lib new_id req t)) \<noteq> 500
   \<and> status (fst (doc_put_meal lib req t)) \<noteq> 500
   \<and> status (fst (doc_delete_meal lib req t)) \<noteq> 500
   \<and> status (fst (doc_get_data t)) = (if next_db_fails t then 500 else 200)"
proof -
  have flat: "status (fst (flat_post_meal req s)) \<noteq> 500
       \<and> status (fst (flat_put_meal req s)) \<noteq> 500
       \<and> status (fst (flat_delete_meal req s)) \<noteq> 500"
    using flat_post_status [of req s] flat_put_status [of req s] flat_delete_status [of req s]
    by auto
  have doc: "status (fst (doc_post_meal lib new_id req t)) \<noteq> 500
       \<and> status (fst (doc_put_meal lib req t)) \<noteq> 500
       \<and> status (fst (doc_delete_meal lib req t)) \<noteq> 500"
    using doc_post_status [of lib new_id req t] doc_put_status [of lib req t]
          doc_delete_status [of lib req t]
    by auto
  show ?thesis
    using flat doc flat_post_failed_save [of s d s1 req m]
          flat_put_failed_save [of s d s1 req current old a m]
          flat_delete_failed_save [of s d s1 req current old a]
    by (simp add: doc_get_data_status caught400_def)
qed

theorem failed_save_answers_400_witness:
  "next_write_fails
     \<lparr>assets = Map.empty,
       data_file = Stored \<lparr>meals = [JObj [(''name'', JStr ''Soup''), (''photo'', JStr '''')]],
                           headings = None\<rparr>,
       write_faults = [True]\<rparr>
   \<and> status (fst (flat_post_meal
        \<lparr>params_id = ''0'', body_meal = Some (JObj [(''name'', JStr ''Stew'')]),
          body_heading = None, uploaded = None\<rparr>
        \<lparr>assets = Map.empty,
          data_file = Stored \<lparr>meals = [JObj [(''name'', JStr ''Soup''), (''photo'', JStr '''')]],
                              headings = None\<rparr>,
          write_faults = [True]\<rparr>)) = 400
   \<and> status (fst (flat_put_meal
        \<lparr>params_id = ''0'', body_meal = Some (JObj [(''name'', JStr ''Stew'')]),
          body_heading = None, uploaded = None\<rparr>
        \<lparr>assets = Map.empty,
          data_file = Stored \<lparr>meals = [JObj [(''name'', JStr ''Soup''), (''photo'', JStr '''')]],
                              headings = None\<rparr>,
          write_faults = [True]\<rparr>)) = 400
   \<and> status (fst (flat_delete_meal
        \<lparr>params_id = ''0'', body_meal = Some (JObj [(''name'', JStr ''Stew'')]),
          body_heading = None, uploaded = None\<rparr>
        \<lparr>assets = Map.empty,
          data_file = Stored \<lparr>meals = [JObj [(''name'', JStr ''Soup''), (''photo'', JStr '''')]],
                              headings = None\<rparr>,
          write_faults = [True]\<rparr>)) = 400"
proof -
  let ?cur = "JObj [(''name'', JStr ''Soup''), (''photo'', JStr '''')]"
  let ?d = "\<lparr>meals = [?cur], headings = None\<rparr>"
  let ?s = "\<lparr>assets = Map.empty, data_file = Stored ?d, write_faults = [True]\<rparr>"
  let ?m = "JObj [(''name'', JStr ''Stew'')]"
  let ?req = "\<lparr>params_id = ''0'', body_meal = Some ?m, body_heading = None, uploaded = None\<rparr>"
  have h1: "readData ?s = (?d, ?s)"
    by (simp add: readData_def)
  have h2: "next_write_fails ?s"
    by (simp add: next_write_fails_def)
  have h3: "in_range (parseInt (params_id ?req)) (meals ?d)"
    by (simp add: parseInt_0 in_range_def)
  have h4: "js_index (meals ?d) (the (parseInt (params_id ?req))) = Some ?cur"
    by (simp add: parseInt_0 js_index_def)
  have h5: "get_prop ?cur ''photo'' = Inr (Some (JStr ''''))"
    by simp
  have h6: "unlink_photo (Some (JStr '''')) (assets ?s) = Inr Map.empty"
    by (simp add: unlink_photo_def truthy_opt_def)
  have h7: "body_meal ?req = Some ?m \<and> ?m \<noteq> JNull \<and> uploaded ?req = None"
    by simp
  have "fst (flat_post_meal ?req ?s) = \<lparr>status = 400, reply = Caught (Thrown ''Failed to save data'')\<rparr>
      \<and> fst (flat_put_meal ?req ?s) = \<lparr>status = 400, reply = Caught (Thrown ''Failed to save data'')\<rparr>
      \<and> fst (flat_delete_meal ?req ?s) = \<lparr>status = 400, reply = Caught (Thrown ''Failed to save data'')\<rparr>"
    using failed_save_answers_400
            [where s = ?s and d = ?d and ?s1.0 = ?s and req = ?req and m = ?m
               and current = ?cur and old = "Some (JStr '''')" and a = Map.empty]
          h1 h2 h3 h4 h5 h6 h7
    by blast
  with h2 show ?thesis by simp
qed

text \<open>
  C2 as stated fails in the flat-file variant: the write of \<^verbatim>\<open>POST /api/meals\<close> fails
  and the answer is 400, not 500.
\<close>

theorem failed_save_500_counterexample:
  "next_write_fails \<lparr>assets = Map.empty, data_file = Stored initialData, write_faults = [True]\<rparr>
   \<and> status (fst (flat_post_meal
        \<lparr>params_id = '''',
          body_meal = Some (JObj [(''name'', JStr ''Soup''), (''description'', JStr ''Tomato soup'')]),
          body_heading = None, uploaded = None\<rparr>
        \<lparr>assets = Map.empty, data_file = Stored initialData, write_faults = [True]\<rparr>)) \<noteq> 500
   \<and> fst (flat_post_meal
        \<lparr>params_id = '''',
          body_meal = Some (JObj [(''name'', JStr ''Soup''), (''description'', JStr ''Tomato soup'')]),
          body_heading = None, uploaded = None\<rparr>
        \<lparr>assets = Map.empty, data_file = Stored initialData, write_faults = [True]\<rparr>)
       = \<lparr>status = 400, reply = Caught (Thrown ''Failed to save data'')\<rparr>"
  by (simp add: next_write_fails_def flat_post_meal_def readData_def save_and_reply_def
        writeData_def caught400_def)

section \<open>C3: which fields a PUT changes\<close>




lemma meal_set_paths:
  assumes "meal_set lib kvs doc = Some doc'"
  shows "set_path (cast_String lib) kvs ''name'' (name doc) = Some (name doc')
       \<and> set_path (cast_String lib) kvs ''description'' (description doc) = Some (description doc')
       \<and> set_path (cast_String lib) kvs ''photo'' (photo doc) = Some (photo doc')
       \<and> set_path (cast_Boolean lib) kvs ''halfServe'' (halfServe doc) = Some (halfServe doc')
       \<and> set_path (cast_Id lib) kvs ''heading'' (heading doc) = Some (heading doc')"
  using assms by (auto simp: meal_set_def split: Option.bind_splits)







section \<open>C4: an upload the middleware refuses\<close>

lemma upload_single_rejects:
  "\<not> startsWith (mimetype u) ''image/'' \<or> fileSize_limit < bytes u \<Longrightarrow>
   upload_single (Some u) a =
     Inl (if \<not> startsWith (mimetype u) ''image/'' then ''Only image files are allowed!''
          else ''File too large'')"
  by (auto simp: upload_single_def)

lemma with_upload_rejects:
  "\<not> startsWith (mimetype u) ''image/'' \<or> fileSize_limit < bytes u \<Longrightarrow>
   with_upload handler (Some u) req s =
     (\<lparr>status = 500,
       reply = Unhandled (if \<not> startsWith (mimetype u) ''image/''
                          then ''Only image files are allowed!'' else ''File too large'')\<rparr>, s)"
  by (simp add: with_upload_def upload_single_rejects)

text \<open>
  C4, as the code has it. An upload whose mimetype does not start with \<^verbatim>\<open>image/\<close>, or
  whose content is larger than 5 MiB, is refused by the upload middleware before the
  handler runs: on \<^verbatim>\<open>POST /api/meals\<close> and \<^verbatim>\<open>PUT /api/meals/:id\<close> of both variants
  the server state is unchanged (no asset file, no meal record), and the error reaches
  the default error handler of Express, which answers 500.
\<close>

theorem refused_upload_answers_500:
  assumes "\<not> startsWith (mimetype u) ''image/'' \<or> fileSize_limit < bytes u"
  shows "status (fst (flat_POST_meals (Some u) req s)) = 500
       \<and> status (fst (flat_PUT_meals (Some u) req s)) = 500
       \<and> status (fst (doc_POST_meals lib new_id (Some u) req t)) = 500
       \<and> status (fst (doc_PUT_meals lib (Some u) req t)) = 500
       \<and> snd (flat_POST_meals (Some u) req s) = s
       \<and> snd (flat_PUT_meals (Some u) req s) = s
       \<and> snd (doc_POST_meals lib new_id (Some u) req t) = t
       \<and> snd (doc_PUT_meals lib (Some u) req t) = t"
  using assms
  by (simp add: flat_POST_meals_def flat_PUT_meals_def doc_POST_meals_def doc_PUT_meals_def
        with_upload_rejects)

theorem refused_upload_answers_500_witness:
  "fileSize_limit < bytes \<lparr>mimetype = ''image/png'', bytes = 5242881, filename = ''1700000000000-42.png''\<rparr>
   \<and> status (fst (flat_POST_meals
        (Some \<lparr>mimetype = ''image/png'', bytes = 5242881, filename = ''1700000000000-42.png''\<rparr>)
        \<lparr>params_id = '''', body_meal = Some (JObj [(''name'', JStr ''Soup'')]),
          body_heading = None, uploaded = None\<rparr>
        \<lparr>assets = Map.empty, data_file = Stored initialData, write_faults = []\<rparr>)) = 500
   \<and> snd (flat_POST_meals
        (Some \<lparr>mimetype = ''image/png'', bytes = 5242881, filename = ''1700000000000-42.png''\<rparr>)
        \<lparr>params_id = '''', body_meal = Some (JObj [(''name'', JStr ''Soup'')]),
          body_heading = None, uploaded = None\<rparr>
        \<lparr>assets = Map.empty, data_file = Stored initialData, write_faults = []\<rparr>)
       = \<lparr>assets = Map.empty, data_file = Stored initialData, write_faults = []\<rparr>"
proof -
  let ?u = "\<lparr>mimetype = ''image/png'', bytes = 5242881, filename = ''1700000000000-42.png''\<rparr>"
  have big: "fileSize_limit < bytes ?u"
    by (simp add: fileSize_limit_def)
  then have "\<not> startsWith (mimetype ?u) ''image/'' \<or> fileSize_limit < bytes ?u"
    by blast
  from refused_upload_answers_500 [OF this] big show ?thesis
    by blast
qed

text \<open>
  C4 as stated fails on its status code: a \<^verbatim>\<open>text/plain\<close> upload to
  \<^verbatim>\<open>POST /api/meals\<close> is not answered with 400.
\<close>

theorem refused_upload_400_counterexample:
  "\<not> startsWith (mimetype \<lparr>mimetype = ''text/plain'', bytes = 12, filename = ''1700000000000-42.txt''\<rparr>) ''image/''
   \<and> status (fst (flat_POST_meals
        (Some \<lparr>mimetype = ''text/plain'', bytes = 12, filename = ''1700000000000-42.txt''\<rparr>)
        \<lparr>params_id = '''', body_meal = Some (JObj [(''name'', JStr ''Soup'')]),
          body_heading = None, uploaded = None\<rparr>
        \<lparr>assets = Map.empty, data_file = Stored initialData, write_faults = []\<rparr>)) \<noteq> 400"
  by (simp add: flat_POST_meals_def with_upload_def upload_single_def startsWith_def)

section \<open>C5: the photo of a record when nothing is uploaded\<close>

text \<open>
  C5 at the request \<^verbatim>\<open>PUT /api/meals/0\<close> with \<^verbatim>\<open>meal=[]\<close> and no file, in the flat-file
  variant. The assignment \<^verbatim>\<open>updatedMeal.photo = data.meals[0].photo\<close> sets a named
  property of an array, which \<^verbatim>\<open>JSON.stringify\<close> does not write: the record stored
  afterwards is \<^verbatim>\<open>[]\<close>, its \<^verbatim>\<open>photo\<close> is \<^verbatim>\<open>undefined\<close>, and the file of the old photo
  stays in the uploads directory.
\<close>

theorem put_array_body_drops_photo:
  "get_prop (JObj [(''name'', JStr ''Soup''), (''description'', JStr ''Tomato soup''),
                   (''photo'', JStr ''/uploads/old.jpg'')]) ''photo''
     = Inr (Some (JStr ''/uploads/old.jpg''))
   \<and> fst (flat_put_meal
        \<lparr>params_id = ''0'', body_meal = Some (JArr []), body_heading = None, uploaded = None\<rparr>
        \<lparr>assets = [''/uploads/old.jpg'' \<mapsto> RegularFile],
          data_file = Stored
            \<lparr>meals = [JObj [(''name'', JStr ''Soup''), (''description'', JStr ''Tomato soup''),
                             (''photo'', JStr ''/uploads/old.jpg'')]],
              headings = None\<rparr>,
          write_faults = []\<rparr>)
     = \<lparr>status = 200, reply = Ok (JArr [])\<rparr>
   \<and> data_file (snd (flat_put_meal
        \<lparr>params_id = ''0'', body_meal = Some (JArr []), body_heading = None, uploaded = None\<rparr>
        \<lparr>assets = [''/uploads/old.jpg'' \<mapsto> RegularFile],
          data_file = Stored
            \<lparr>meals = [JObj [(''name'', JStr ''Soup''), (''description'', JStr ''Tomato soup''),
                             (''photo'', JStr ''/uploads/old.jpg'')]],
              headings = None\<rparr>,
          write_faults = []\<rparr>))
     = Stored \<lparr>meals = [JArr []], headings = None\<rparr>
   \<and> get_prop (JArr []) ''photo'' = Inr None
   \<and> assets (snd (flat_put_meal
        \<lparr>params_id = ''0'', body_meal = Some (JArr []), body_heading = None, uploaded = None\<rparr>
        \<lparr>assets = [''/uploads/old.jpg'' \<mapsto> RegularFile],
          data_file = Stored
            \<lparr>meals = [JObj [(''name'', JStr ''Soup''), (''description'', JStr ''Tomato soup''),
                             (''photo'', JStr ''/uploads/old.jpg'')]],
              headings = None\<rparr>,
          write_faults = []\<rparr>)) ''/uploads/old.jpg'' = Some RegularFile"
  by (simp add: flat_put_meal_def readData_def parseInt_0 in_range_def js_index_def
        save_and_reply_def writeData_def ok_def)

text \<open>
  The loss is confined to a \<^verbatim>\<open>meal\<close> field that is an array or a primitive. With a
  JSON object as \<^verbatim>\<open>meal\<close> field and no upload, the record at the index keeps its
  \<^verbatim>\<open>photo\<close> in the flat-file variant, and the document keeps its \<^verbatim>\<open>photo\<close> in the
  document-collection variant, whether the request succeeds or fails.
\<close>

lemma flat_put_object_keeps_photo:
  assumes "readData s = (d, s1)"
      and "in_range (parseInt (params_id req)) (meals d)"
      and "body_meal req = Some (JObj kvs)"
      and "uploaded req = None"
      and "data_file (snd (flat_put_meal req s)) = Stored d'"
  shows "length (meals d') = length (meals d)
       \<and> get_prop (meals d' ! nat (the (parseInt (params_id req)))) ''photo''
           = get_prop (meals d ! nat (the (parseInt (params_id req)))) ''photo''"
proof -
  let ?i = "nat (the (parseInt (params_id req)))"
  from assms(2) obtain i where i: "parseInt (params_id req) = Some i" "0 \<le> i" "i < int (length (meals d))"
    by (auto simp: in_range_def split: option.splits)
  then have ne: "meals d \<noteq> []" and lt: "?i < length (meals d)"
    by auto
  from readData_nonempty [OF assms(1) ne] have s1: "s1 = s" and st: "data_file s = Stored d"
    by simp_all
  have cur: "js_index (meals d) (the (parseInt (params_id req))) = Some (meals d ! ?i)"
    using i by (simp add: js_index_def)
  show ?thesis
  proof (cases "get_prop (meals d ! ?i) ''photo''")
    case (Inl e)
    then have "flat_put_meal req s = (caught400 e, s)"
      using assms(1-4) cur s1 by (simp add: flat_put_meal_def Let_def)
    with assms(5) st show ?thesis by simp
  next
    case (Inr old)
    let ?u = "JObj (assign_key kvs ''photo'' old)"
    let ?d2 = "d\<lparr>meals := (meals d)[?i := ?u]\<rparr>"
    have run: "flat_put_meal req s = save_and_reply ?d2 ?u s"
      using assms(1-4) cur s1 Inr by (simp add: flat_put_meal_def Let_def)
    from save_and_reply_data_file [OF st, of ?d2 ?u] assms(5) run
    have "d' = d \<or> d' = ?d2" by auto
    then show ?thesis
    proof
      assume "d' = d" then show ?thesis by simp
    next
      assume "d' = ?d2"
      then show ?thesis using lt Inr by (simp add: map_of_assign_key)
    qed
  qed
qed

lemma cast_String_field_json:
  "set_path (cast_String lib) (assign_key kvs ''photo'' (field_json f)) ''photo'' f = Some f"
  by (cases f) (simp_all add: set_path_def map_of_assign_key cast_String_def)

lemma set_and_save_meal_docs:
  "meal_docs (snd (set_and_save lib oid doc (JObj kvs) x t)) = meal_docs t
   \<or> (\<exists>doc'. meal_set lib (assign_key kvs ''photo'' x) doc = Some doc'
        \<and> meal_docs (snd (set_and_save lib oid doc (JObj kvs) x t))
              = AList.update oid doc' (meal_docs t))"
proof (cases "meal_set lib (assign_key kvs ''photo'' x) doc")
  case None
  then show ?thesis
    by (simp add: set_and_save_def Let_def)
next
  case (Some doc')
  then show ?thesis
    by (cases "next_db_fails t")
       (simp_all add: set_and_save_def Let_def db_call_fails db_call_succeeds)
qed

lemma set_and_save_object_keeps_photo:
  assumes "map_of (meal_docs t) oid = Some doc"
  shows "map_option photo
           (map_of (meal_docs (snd (set_and_save lib oid doc (JObj kvs) (field_json (photo doc)) t))) oid)
         = Some (photo doc)"
  using set_and_save_meal_docs [of lib oid doc kvs "field_json (photo doc)" t]
proof
  assume "meal_docs (snd (set_and_save lib oid doc (JObj kvs) (field_json (photo doc)) t)) = meal_docs t"
  with assms show ?thesis by simp
next
  assume "\<exists>doc'. meal_set lib (assign_key kvs ''photo'' (field_json (photo doc))) doc = Some doc'
        \<and> meal_docs (snd (set_and_save lib oid doc (JObj kvs) (field_json (photo doc)) t))
              = AList.update oid doc' (meal_docs t)"
  then obtain doc' where
    ms: "meal_set lib (assign_key kvs ''photo'' (field_json (photo doc))) doc = Some doc'"
    and md: "meal_docs (snd (set_and_save lib oid doc (JObj kvs) (field_json (photo doc)) t))
              = AList.update oid doc' (meal_docs t)"
    by blast
  have "photo doc' = photo doc"
    using meal_set_paths [OF ms] cast_String_field_json [of lib kvs "photo doc"] by simp
  then show ?thesis
    by (simp add: md AList.update_conv')
qed

lemma doc_put_object_keeps_photo:
  assumes "findById lib (params_id rq) t = (Inr (Some (oid, doc)), t1)"
      and "body_meal rq = Some (JObj kvs)"
      and "uploaded rq = None"
  shows "map_option photo (map_of (meal_docs (snd (doc_put_meal lib rq t))) oid) = Some (photo doc)"
proof -
  have "map_of (meal_docs t1) oid = Some doc"
    using findById_found [OF assms(1)] findById_state [OF assms(1)] by simp
  from set_and_save_object_keeps_photo [OF this]
  show ?thesis using assms by (simp add: doc_put_meal_def)
qed

section \<open>The routes behind the upload middleware\<close>

lemma with_upload_refused:
  "refused part \<Longrightarrow>
   status (fst (with_upload handler part req s)) = 500 \<and> snd (with_upload handler part req s) = s"
  by (auto simp: refused_def with_upload_def upload_single_def split: option.splits if_splits)

lemma with_upload_accepted:
  "\<not> refused part \<Longrightarrow>
   with_upload handler part req s =
     handler (req\<lparr>uploaded := map_option filename part\<rparr>)
       (s\<lparr>assets := stored_upload part (assets s)\<rparr>)"
  by (auto simp: refused_def stored_upload_def with_upload_def upload_single_def
           split: option.splits if_splits)

lemma writeData_assets_update:
  "writeData d (s\<lparr>assets := a\<rparr>) = (fst (writeData d s), (snd (writeData d s))\<lparr>assets := a\<rparr>)"
  by (simp add: writeData_def split: list.splits)

lemma readData_assets_update:
  "readData (s\<lparr>assets := a\<rparr>) = (fst (readData s), (snd (readData s))\<lparr>assets := a\<rparr>)"
  by (cases "data_file s") (simp_all add: readData_def writeData_assets_update)

lemma findById_assets_update:
  "findById lib i (t\<lparr>assets := a\<rparr>) =
     (fst (findById lib i t), (snd (findById lib i t))\<lparr>assets := a\<rparr>)"
  by (simp add: findById_def db_call_def Let_def split: option.splits list.splits)

lemma findById_meal_docs [simp]: "meal_docs (snd (findById lib i t)) = meal_docs t"
  using findById_state [of lib i t "fst (findById lib i t)" "snd (findById lib i t)"] by simp

lemma findById_cast_fails:
  "cast_ObjectId lib (JStr i) = None \<Longrightarrow> fst (findById lib i t) = Inl CastError"
  by (simp add: findById_def)

lemma next_db_fails_assets [simp]: "next_db_fails (t\<lparr>assets := a\<rparr>) = next_db_fails t"
  by (simp add: next_db_fails_def)

lemma flat_PUT_refused:
  "refused part \<Longrightarrow>
   status (fst (flat_PUT_meals part req s)) = 500 \<and> snd (flat_PUT_meals part req s) = s"
  by (simp add: flat_PUT_meals_def with_upload_refused)

lemma doc_PUT_refused:
  "refused part \<Longrightarrow>
   status (fst (doc_PUT_meals lib part rq t)) = 500 \<and> snd (doc_PUT_meals lib part rq t) = t"
  by (simp add: doc_PUT_meals_def with_upload_refused)

lemma doc_PUT_accepted:
  "\<not> refused part \<Longrightarrow>
   doc_PUT_meals lib part rq t =
     doc_put_meal lib (rq\<lparr>uploaded := map_option filename part\<rparr>)
       (t\<lparr>assets := stored_upload part (assets t)\<rparr>)"
  by (simp add: doc_PUT_meals_def with_upload_accepted)

section \<open>C6: an id that resolves to no record\<close>

lemma flat_put_not_in_range:
  "\<not> in_range (parseInt (params_id req)) (meals (fst (readData s))) \<Longrightarrow>
   flat_put_meal req s = (meal_not_found, snd (readData s))"
  by (simp add: flat_put_meal_def split_beta Let_def)

lemma flat_delete_not_in_range:
  "\<not> in_range (parseInt (params_id req)) (meals (fst (readData s))) \<Longrightarrow>
   flat_delete_meal req s = (meal_not_found, snd (readData s))"
  by (simp add: flat_delete_meal_def split_beta Let_def)

lemma flat_PUT_not_in_range:
  assumes "\<not> in_range (parseInt (params_id req)) (meals (fst (readData s)))"
      and "\<not> refused part"
  shows "flat_PUT_meals part req s =
           (meal_not_found, (snd (readData s))\<lparr>assets := stored_upload part (assets s)\<rparr>)"
  using assms
  by (simp add: flat_PUT_meals_def with_upload_accepted flat_put_not_in_range
        readData_assets_update)

lemma doc_delete_no_document:
  assumes "fst (findById lib (params_id rq) t) = Inr None"
  shows "fst (doc_delete_meal lib rq t) = meal_not_found
       \<and> meal_docs (snd (doc_delete_meal lib rq t)) = meal_docs t"
  using assms findById_meal_docs [of lib "params_id rq" t]
  by (cases "findById lib (params_id rq) t") (simp add: doc_delete_meal_def)

lemma doc_delete_rejected:
  assumes "fst (findById lib (params_id rq) t) = Inl e"
  shows "fst (doc_delete_meal lib rq t) = caught400 e
       \<and> meal_docs (snd (doc_delete_meal lib rq t)) = meal_docs t"
  using assms findById_meal_docs [of lib "params_id rq" t]
  by (cases "findById lib (params_id rq) t") (simp add: doc_delete_meal_def)

lemma doc_put_no_document:
  assumes "fst (findById lib (params_id rq) t) = Inr None"
  shows "fst (doc_put_meal lib rq t) =
           (if body_meal rq = None then caught400 SyntaxError else meal_not_found)
       \<and> meal_docs (snd (doc_put_meal lib rq t)) = meal_docs t"
  using assms findById_meal_docs [of lib "params_id rq" t]
  by (cases "findById lib (params_id rq) t") (auto simp: doc_put_meal_def split: option.splits)

lemma doc_put_rejected:
  assumes "fst (findById lib (params_id rq) t) = Inl e"
  shows "fst (doc_put_meal lib rq t) =
           (if body_meal rq = None then caught400 SyntaxError else caught400 e)
       \<and> meal_docs (snd (doc_put_meal lib rq t)) = meal_docs t"
  using assms findById_meal_docs [of lib "params_id rq" t]
  by (cases "findById lib (params_id rq) t") (auto simp: doc_put_meal_def split: option.splits)

lemma doc_PUT_no_document:
  assumes "fst (findById lib (params_id rq) t) = Inr None" and "\<not> refused part"
  shows "fst (doc_PUT_meals lib part rq t) =
           (if body_meal rq = None then caught400 SyntaxError else meal_not_found)
       \<and> meal_docs (snd (doc_PUT_meals lib part rq t)) = meal_docs t"
  using doc_put_no_document
          [of lib "rq\<lparr>uploaded := map_option filename part\<rparr>"
              "t\<lparr>assets := stored_upload part (assets t)\<rparr>"]
        assms
  by (simp add: doc_PUT_accepted findById_assets_update)

lemma doc_PUT_rejected:
  assumes "fst (findById lib (params_id rq) t) = Inl e" and "\<not> refused part"
  shows "fst (doc_PUT_meals lib part rq t) =
           (if body_meal rq = None then caught400 SyntaxError else caught400 e)
       \<and> meal_docs (snd (doc_PUT_meals lib part rq t)) = meal_docs t"
  using doc_put_rejected
          [of lib "rq\<lparr>uploaded := map_option filename part\<rparr>"
              "t\<lparr>assets := stored_upload part (assets t)\<rparr>" e]
        assms
  by (simp add: doc_PUT_accepted findById_assets_update)

lemma sample_cast_abc: "cast_ObjectId sample_mongoose (JStr ''abc'') = None"
  by (simp add: sample_mongoose_def)

text \<open>
  C6, as the code has it, on the routes. \<^verbatim>\<open>DELETE /api/meals/:id\<close> has no middleware;
  \<^verbatim>\<open>PUT /api/meals/:id\<close> runs \<^verbatim>\<open>upload.single('photo')\<close> first, and an upload that the
  middleware refuses is answered with 500 before the handler sees the id. Otherwise:
  \<^item> flat-file variant, \<^verbatim>\<open>parseInt\<close> of the id NaN or outside the array: \<^verbatim>\<open>DELETE\<close> and
    \<^verbatim>\<open>PUT\<close> answer 404;
  \<^item> document-collection variant, \<^verbatim>\<open>Meal.findById\<close> resolves to no document:
    \<^verbatim>\<open>DELETE\<close> answers 404, and \<^verbatim>\<open>PUT\<close> answers 404 when the \<^verbatim>\<open>meal\<close> field parses as
    JSON and 400 when it does not (the field is parsed before the id is looked up);
  \<^item> document-collection variant, \<^verbatim>\<open>Meal.findById\<close> rejects (the id fails the cast to
    an ObjectId, or the query is rejected): \<^verbatim>\<open>DELETE\<close> and \<^verbatim>\<open>PUT\<close> answer 400 from their
    \<^verbatim>\<open>catch\<close>.
  In the document-collection variant the collection of meals is unchanged in each case.
\<close>

theorem unknown_id_is_404:
  "(\<not> in_range (parseInt (params_id req)) (meals (fst (readData s)))
      \<longrightarrow> fst (flat_delete_meal req s) = \<lparr>status = 404, reply = ErrorBody ''Meal not found''\<rparr>
        \<and> (if refused part then status (fst (flat_PUT_meals part req s)) = 500
            else fst (flat_PUT_meals part req s)
                   = \<lparr>status = 404, reply = ErrorBody ''Meal not found''\<rparr>))
   \<and> (fst (findById lib (params_id rq) t) = Inr None
      \<longrightarrow> fst (doc_delete_meal lib rq t) = \<lparr>status = 404, reply = ErrorBody ''Meal not found''\<rparr>
        \<and> (if refused part then status (fst (doc_PUT_meals lib part rq t)) = 500
            else if body_meal rq = None
            then fst (doc_PUT_meals lib part rq t) = \<lparr>status = 400, reply = Caught SyntaxError\<rparr>
            else fst (doc_PUT_meals lib part rq t)
                   = \<lparr>status = 404, reply = ErrorBody ''Meal not found''\<rparr>)
        \<and> meal_docs (snd (doc_delete_meal lib rq t)) = meal_docs t
        \<and> meal_docs (snd (doc_PUT_meals lib part rq t)) = meal_docs t)
   \<and> (fst (findById lib (params_id rq) t) = Inl e
      \<longrightarrow> fst (doc_delete_meal lib rq t) = \<lparr>status = 400, reply = Caught e\<rparr>
        \<and> (if refused part then status (fst (doc_PUT_meals lib part rq t)) = 500
            else if body_meal rq = None
            then fst (doc_PUT_meals lib part rq t) = \<lparr>status = 400, reply = Caught SyntaxError\<rparr>
            else fst (doc_PUT_meals lib part rq t) = \<lparr>status = 400, reply = Caught e\<rparr>)
        \<and> meal_docs (snd (doc_delete_meal lib rq t)) = meal_docs t
        \<and> meal_docs (snd (doc_PUT_meals lib part rq t)) = meal_docs t)
   \<and> (cast_ObjectId lib (JStr (params_id rq)) = None
      \<longrightarrow> fst (findById lib (params_id rq) t) = Inl CastError)"
proof (cases "refused part")
  case True
  then show ?thesis
    using flat_PUT_refused [of part req s] doc_PUT_refused [of part lib rq t]
          doc_delete_no_document [of lib rq t] doc_delete_rejected [of lib rq t e]
          findById_cast_fails [of lib "params_id rq" t]
    by (simp add: flat_delete_not_in_range meal_not_found_def caught400_def)
next
  case False
  then show ?thesis
    using flat_PUT_not_in_range [of req s part]
          doc_PUT_no_document [of lib rq t part] doc_PUT_rejected [of lib rq t e part]
          doc_delete_no_document [of lib rq t] doc_delete_rejected [of lib rq t e]
          findById_cast_fails [of lib "params_id rq" t]
    by (simp add: flat_delete_not_in_range meal_not_found_def caught400_def)
qed

theorem unknown_id_is_404_witness:
  "\<not> in_range (parseInt ''7'')
       (meals (fst (readData \<lparr>assets = Map.empty, data_file = Stored initialData, write_faults = []\<rparr>)))
   \<and> \<not> refused (Some \<lparr>mimetype = ''image/png'', bytes = 2048, filename = ''new.png''\<rparr>)
   \<and> refused (Some \<lparr>mimetype = ''text/plain'', bytes = 12, filename = ''new.txt''\<rparr>)
   \<and> status (fst (flat_delete_meal
        \<lparr>params_id = ''7'', body_meal = None, body_heading = None, uploaded = None\<rparr>
        \<lparr>assets = Map.empty, data_file = Stored initialData, write_faults = []\<rparr>)) = 404
   \<and> status (fst (flat_PUT_meals
        (Some \<lparr>mimetype = ''image/png'', bytes = 2048, filename = ''new.png''\<rparr>)
        \<lparr>params_id = ''7'', body_meal = None, body_heading = None, uploaded = None\<rparr>
        \<lparr>assets = Map.empty, data_file = Stored initialData, write_faults = []\<rparr>)) = 404
   \<and> status (fst (flat_PUT_meals
        (Some \<lparr>mimetype = ''text/plain'', bytes = 12, filename = ''new.txt''\<rparr>)
        \<lparr>params_id = ''7'', body_meal = None, body_heading = None, uploaded = None\<rparr>
        \<lparr>assets = Map.empty, data_file = Stored initialData, write_faults = []\<rparr>)) = 500
   \<and> fst (findById sample_mongoose ''65f0c0ffee65f0c0ffee0001''
        \<lparr>assets = Map.empty, meal_docs = [], heading_docs = [], db_faults = []\<rparr>) = Inr None
   \<and> status (fst (doc_delete_meal sample_mongoose
        \<lparr>params_id = ''65f0c0ffee65f0c0ffee0001'', body_meal = Some (JObj [(''name'', JStr ''Stew'')]),
          body_heading = None, uploaded = None\<rparr>
        \<lparr>assets = Map.empty, meal_docs = [], heading_docs = [], db_faults = []\<rparr>)) = 404
   \<and> status (fst (doc_PUT_meals sample_mongoose
        (Some \<lparr>mimetype = ''image/png'', bytes = 2048, filename = ''new.png''\<rparr>)
        \<lparr>params_id = ''65f0c0ffee65f0c0ffee0001'', body_meal = Some (JObj [(''name'', JStr ''Stew'')]),
          body_heading = None, uploaded = None\<rparr>
        \<lparr>assets = Map.empty, meal_docs = [], heading_docs = [], db_faults = []\<rparr>)) = 404
   \<and> cast_ObjectId sample_mongoose (JStr ''abc'') = None
   \<and> fst (doc_delete_meal sample_mongoose
        \<lparr>params_id = ''abc'', body_meal = Some (JObj [(''name'', JStr ''Stew'')]),
          body_heading = None, uploaded = None\<rparr>
        \<lparr>assets = Map.empty, meal_docs = [], heading_docs = [], db_faults = []\<rparr>)
       = \<lparr>status = 400, reply = Caught CastError\<rparr>
   \<and> fst (doc_PUT_meals sample_mongoose None
        \<lparr>params_id = ''abc'', body_meal = Some (JObj [(''name'', JStr ''Stew'')]),
          body_heading = None, uploaded = None\<rparr>
        \<lparr>assets = Map.empty, meal_docs = [], heading_docs = [], db_faults = []\<rparr>)
       = \<lparr>status = 400, reply = Caught CastError\<rparr>"
proof -
  let ?s = "\<lparr>assets = Map.empty, data_file = Stored initialData, write_faults = []\<rparr>"
  let ?t = "\<lparr>assets = Map.empty, meal_docs = [], heading_docs = [], db_faults = []\<rparr>"
  let ?req = "\<lparr>params_id = ''7'', body_meal = None, body_heading = None, uploaded = None\<rparr>"
  let ?rq = "\<lparr>params_id = ''65f0c0ffee65f0c0ffee0001'',
               body_meal = Some (JObj [(''name'', JStr ''Stew'')]),
               body_heading = None, uploaded = None\<rparr>"
  let ?rqx = "\<lparr>params_id = ''abc'', body_meal = Some (JObj [(''name'', JStr ''Stew'')]),
                body_heading = None, uploaded = None\<rparr>"
  let ?img = "Some \<lparr>mimetype = ''image/png'', bytes = 2048, filename = ''new.png''\<rparr>"
  let ?txt = "Some \<lparr>mimetype = ''text/plain'', bytes = 12, filename = ''new.txt''\<rparr>"
  have idx: "parseInt ''7'' = Some 7"
    by (simp add: parseInt_def strip_sign_def strip_radix_def is_space_def digit_val_def)
  have h1: "\<not> in_range (parseInt (params_id ?req)) (meals (fst (readData ?s)))"
    by (simp add: idx in_range_def readData_def initialData_def)
  have acc: "\<not> refused ?img" and rej: "refused ?txt"
    by (simp_all add: refused_def startsWith_def fileSize_limit_def)
  have h2: "fst (findById sample_mongoose (params_id ?rq) ?t) = Inr None"
    by (simp add: findById_def sample_cast_id db_call_def)
  have h3: "cast_ObjectId sample_mongoose (JStr (params_id ?rqx)) = None"
    by (simp add: sample_cast_abc)
  have a: "status (fst (flat_delete_meal ?req ?s)) = 404
         \<and> status (fst (flat_PUT_meals ?img ?req ?s)) = 404
         \<and> status (fst (doc_delete_meal sample_mongoose ?rq ?t)) = 404
         \<and> status (fst (doc_PUT_meals sample_mongoose ?img ?rq ?t)) = 404"
    using unknown_id_is_404
            [where req = ?req and s = ?s and part = ?img and lib = sample_mongoose
               and rq = ?rq and t = ?t]
          h1 h2 acc
    by simp
  have b: "status (fst (flat_PUT_meals ?txt ?req ?s)) = 500"
    using unknown_id_is_404 [where req = ?req and s = ?s and part = ?txt] h1 rej
    by simp
  have c: "fst (findById sample_mongoose (params_id ?rqx) ?t) = Inl CastError"
    using unknown_id_is_404 [where lib = sample_mongoose and rq = ?rqx and t = ?t] h3
    by blast
  have nr: "\<not> refused None"
    by (simp add: refused_def)
  have d: "fst (doc_delete_meal sample_mongoose ?rqx ?t) = \<lparr>status = 400, reply = Caught CastError\<rparr>
         \<and> fst (doc_PUT_meals sample_mongoose None ?rqx ?t) = \<lparr>status = 400, reply = Caught CastError\<rparr>"
    using unknown_id_is_404
            [where lib = sample_mongoose and rq = ?rqx and t = ?t and e = CastError
               and part = None]
          c nr
    by simp
  from a b d h1 h2 acc rej show ?thesis
    by (simp add: sample_cast_abc)
qed

text \<open>
  C6 as stated fails in three ways: in the document-collection variant the id
  resolves to no document, the \<^verbatim>\<open>meal\<close> field is missing, and \<^verbatim>\<open>PUT\<close> answers 400; the
  id \<^verbatim>\<open>abc\<close>, which no document has, fails the ObjectId cast and \<^verbatim>\<open>DELETE\<close> answers
  400; and in the flat-file variant a \<^verbatim>\<open>PUT\<close> on an index outside the array that
  carries a \<^verbatim>\<open>text/plain\<close> upload is answered with 500.
\<close>

theorem unknown_id_400_counterexample:
  "fst (findById sample_mongoose ''65f0c0ffee65f0c0ffee0001''
        \<lparr>assets = Map.empty, meal_docs = [], heading_docs = [], db_faults = []\<rparr>) = Inr None
   \<and> status (fst (doc_PUT_meals sample_mongoose None
        \<lparr>params_id = ''65f0c0ffee65f0c0ffee0001'', body_meal = None,
          body_heading = None, uploaded = None\<rparr>
        \<lparr>assets = Map.empty, meal_docs = [], heading_docs = [], db_faults = []\<rparr>)) \<noteq> 404
   \<and> fst (doc_PUT_meals sample_mongoose None
        \<lparr>params_id = ''65f0c0ffee65f0c0ffee0001'', body_meal = None,
          body_heading = None, uploaded = None\<rparr>
        \<lparr>assets = Map.empty, meal_docs = [], heading_docs = [], db_faults = []\<rparr>)
       = \<lparr>status = 400, reply = Caught SyntaxError\<rparr>
   \<and> map_of (meal_docs \<lparr>assets = Map.empty, meal_docs = [], heading_docs = [], db_faults = []\<rparr>)
        ''abc'' = None
   \<and> fst (doc_delete_meal sample_mongoose
        \<lparr>params_id = ''abc'', body_meal = None, body_heading = None, uploaded = None\<rparr>
        \<lparr>assets = Map.empty, meal_docs = [], heading_docs = [], db_faults = []\<rparr>)
       = \<lparr>status = 400, reply = Caught CastError\<rparr>
   \<and> status (fst (flat_PUT_meals
        (Some \<lparr>mimetype = ''text/plain'', bytes = 12, filename = ''new.txt''\<rparr>)
        \<lparr>params_id = ''7'', body_meal = None, body_heading = None, uploaded = None\<rparr>
        \<lparr>assets = Map.empty, data_file = Stored initialData, write_faults = []\<rparr>)) = 500"
  by (simp add: findById_def sample_cast_id sample_cast_abc db_call_def doc_PUT_meals_def
        flat_PUT_meals_def with_upload_def upload_single_def startsWith_def
        doc_put_meal_def doc_delete_meal_def caught400_def)

section \<open>C7: the photo file is already gone\<close>

lemma flat_delete_photo_gone:
  assumes "readData s = (d, s1)"
      and "in_range (parseInt (params_id req)) (meals d)"
      and "js_index (meals d) (the (parseInt (params_id req))) = Some deletedMeal"
      and "get_prop deletedMeal ''photo'' = Inr (Some (JStr p))"
      and "assets s p = None"
      and "\<not> next_write_fails s1"
  shows "flat_delete_meal req s =
           (ok deletedMeal,
            s1\<lparr>data_file := Stored (d\<lparr>meals := splice1 (meals d) (nat (the (parseInt (params_id req))))\<rparr>),
               write_faults := tl (write_faults s1)\<rparr>)"
proof -
  have "unlink_photo (Some (JStr p)) (assets s1) = Inr (assets s1)"
    using assms(5) readData_assets_eq [OF assms(1)] by (simp add: unlink_photo_absent)
  then show ?thesis
    using assms by (simp add: flat_delete_meal_def save_and_reply_succeeds)
qed

lemma flat_put_photo_gone:
  assumes "readData s = (d, s1)"
      and "in_range (parseInt (params_id req)) (meals d)"
      and "js_index (meals d) (the (parseInt (params_id req))) = Some current"
      and "get_prop current ''photo'' = Inr (Some (JStr p))"
      and "assets s p = None"
      and "\<not> next_write_fails s1"
      and "body_meal req = Some (JObj kvs)"
      and "uploaded req = Some f"
  shows "flat_put_meal req s =
           (ok (JObj (assign_key kvs ''photo'' (Some (photo_ref f)))),
            s1\<lparr>data_file := Stored (d\<lparr>meals := (meals d)[nat (the (parseInt (params_id req))) :=
                                      JObj (assign_key kvs ''photo'' (Some (photo_ref f)))]\<rparr>),
               write_faults := tl (write_faults s1)\<rparr>)"
proof -
  have "unlink_photo (Some (JStr p)) (assets s1) = Inr (assets s1)"
    using assms(5) readData_assets_eq [OF assms(1)] by (simp add: unlink_photo_absent)
  then show ?thesis
    using assms by (simp add: flat_put_meal_def Let_def save_and_reply_succeeds)
qed

lemma doc_delete_photo_gone:
  assumes "findById lib (params_id rq) t = (Inr (Some (oid, doc)), t1)"
      and "photo doc = Val p"
      and "assets t p = None"
      and "\<not> next_db_fails t1"
  shows "doc_delete_meal lib rq t =
           (ok (MealDoc oid doc),
            t1\<lparr>db_faults := tl (db_faults t1), meal_docs := AList.delete oid (meal_docs t1)\<rparr>)"
proof -
  have t1a: "assets t1 = assets t"
    using findById_state [OF assms(1)] by simp
  then have u: "unlink_photo (Some (JStr p)) (assets t1) = Inr (assets t1)"
    using assms(3) by (simp add: unlink_photo_absent)
  show ?thesis
    using assms(1,2,4) u by (simp add: doc_delete_meal_def db_call_succeeds)
qed

lemma doc_put_photo_gone:
  assumes "findById lib (params_id rq) t = (Inr (Some (oid, doc)), t1)"
      and "photo doc = Val p"
      and "assets t p = None"
      and "\<not> next_db_fails t1"
      and "body_meal rq = Some (JObj kvs)"
      and "uploaded rq = Some f"
      and "map_of kvs ''_id'' = None"
      and "meal_set lib (assign_key kvs ''photo'' (Some (photo_ref f))) doc = Some doc'"
  shows "doc_put_meal lib rq t =
           (ok (MealDoc oid doc'),
            t1\<lparr>db_faults := tl (db_faults t1), meal_docs := AList.update oid doc' (meal_docs t1)\<rparr>)"
proof -
  have t1a: "assets t1 = assets t"
    using findById_state [OF assms(1)] by simp
  then have u: "unlink_photo (Some (JStr p)) (assets t1) = Inr (assets t1)"
    using assms(3) by (simp add: unlink_photo_absent)
  show ?thesis
    using assms(1,2,4-8) u
    by (simp add: doc_put_meal_def set_and_save_def map_of_assign_key db_call_succeeds)
qed

lemma flat_PUT_photo_gone:
  assumes "readData s = (d, s1)"
      and "in_range (parseInt (params_id req)) (meals d)"
      and "js_index (meals d) (the (parseInt (params_id req))) = Some current"
      and "get_prop current ''photo'' = Inr (Some (JStr p))"
      and "assets s p = None"
      and "\<not> next_write_fails s1"
      and "body_meal req = Some (JObj kvs)"
      and "\<not> refused (Some u)"
      and "p \<noteq> ''/uploads/'' @ filename u"
  shows "fst (flat_PUT_meals (Some u) req s) =
           ok (JObj (assign_key kvs ''photo'' (Some (photo_ref (filename u)))))
       \<and> data_file (snd (flat_PUT_meals (Some u) req s)) =
           Stored (d\<lparr>meals := (meals d)[nat (the (parseInt (params_id req))) :=
                     JObj (assign_key kvs ''photo'' (Some (photo_ref (filename u))))]\<rparr>)
       \<and> assets (snd (flat_PUT_meals (Some u) req s)) =
           (assets s)(''/uploads/'' @ filename u \<mapsto> RegularFile)"
proof -
  let ?a = "(assets s)(''/uploads/'' @ filename u \<mapsto> RegularFile)"
  let ?req = "req\<lparr>uploaded := Some (filename u)\<rparr>"
  have run: "flat_PUT_meals (Some u) req s = flat_put_meal ?req (s\<lparr>assets := ?a\<rparr>)"
    using assms(8) by (simp add: flat_PUT_meals_def with_upload_accepted stored_upload_def)
  have rd: "readData (s\<lparr>assets := ?a\<rparr>) = (d, s1\<lparr>assets := ?a\<rparr>)"
    using assms(1) by (simp add: readData_assets_update)
  have "flat_put_meal ?req (s\<lparr>assets := ?a\<rparr>) =
          (ok (JObj (assign_key kvs ''photo'' (Some (photo_ref (filename u))))),
           (s1\<lparr>assets := ?a\<rparr>)
             \<lparr>data_file := Stored (d\<lparr>meals := (meals d)[nat (the (parseInt (params_id ?req))) :=
                                      JObj (assign_key kvs ''photo'' (Some (photo_ref (filename u))))]\<rparr>),
               write_faults := tl (write_faults (s1\<lparr>assets := ?a\<rparr>))\<rparr>)"
    using assms(2-7,9) by (intro flat_put_photo_gone [OF rd, where p = p]) simp_all
  then show ?thesis
    by (simp add: run)
qed

lemma doc_PUT_photo_gone:
  assumes "findById lib (params_id rq) t = (Inr (Some (oid, doc)), t1)"
      and "photo doc = Val p"
      and "assets t p = None"
      and "\<not> next_db_fails t1"
      and "body_meal rq = Some (JObj kvs)"
      and "map_of kvs ''_id'' = None"
      and "\<not> refused (Some u)"
      and "p \<noteq> ''/uploads/'' @ filename u"
      and "meal_set lib (assign_key kvs ''photo'' (Some (photo_ref (filename u)))) doc = Some doc'"
  shows "fst (doc_PUT_meals lib (Some u) rq t) = ok (MealDoc oid doc')
       \<and> meal_docs (snd (doc_PUT_meals lib (Some u) rq t)) = AList.update oid doc' (meal_docs t)
       \<and> assets (snd (doc_PUT_meals lib (Some u) rq t)) =
           (assets t)(''/uploads/'' @ filename u \<mapsto> RegularFile)"
proof -
  let ?a = "(assets t)(''/uploads/'' @ filename u \<mapsto> RegularFile)"
  let ?rq = "rq\<lparr>uploaded := Some (filename u)\<rparr>"
  have run: "doc_PUT_meals lib (Some u) rq t = doc_put_meal lib ?rq (t\<lparr>assets := ?a\<rparr>)"
    using assms(7) by (simp add: doc_PUT_accepted stored_upload_def)
  have fd: "findById lib (params_id ?rq) (t\<lparr>assets := ?a\<rparr>)
              = (Inr (Some (oid, doc)), t1\<lparr>assets := ?a\<rparr>)"
    using assms(1) by (simp add: findById_assets_update)
  have "doc_put_meal lib ?rq (t\<lparr>assets := ?a\<rparr>) =
          (ok (MealDoc oid doc'),
           (t1\<lparr>assets := ?a\<rparr>)
             \<lparr>db_faults := tl (db_faults (t1\<lparr>assets := ?a\<rparr>)),
               meal_docs := AList.update oid doc' (meal_docs (t1\<lparr>assets := ?a\<rparr>))\<rparr>)"
    using assms(2-6,8,9) by (intro doc_put_photo_gone [OF fd, where p = p and kvs = kvs]) simp_all
  then show ?thesis
    using findById_state [OF assms(1)] by (simp add: run)
qed

text \<open>
  C7. When the file a stored \<^verbatim>\<open>photo\<close> refers to does not exist, the deletion step
  returns without an error and leaves the uploads as they are. The operation around it
  then succeeds whenever nothing else fails, and does its work:
  \<^verbatim>\<open>DELETE /api/meals/:id\<close> answers 200 with the deleted meal, and the record is spliced
  out of the data file (flat-file variant, the write succeeds) or the document is
  removed from the collection (document-collection variant, the round trip succeeds);
  \<^verbatim>\<open>PUT /api/meals/:id\<close> with a new upload that the middleware accepts answers 200, the
  record or document is stored with the reference of the new file, and the uploads hold
  the new file and are otherwise as before.
\<close>

theorem absent_photo_file_is_skipped:
  "(a p = None \<longrightarrow> unlink_photo (Some (JStr p)) a = Inr a)
   \<and> (readData s = (d, s1)
       \<and> in_range (parseInt (params_id req)) (meals d)
       \<and> js_index (meals d) (the (parseInt (params_id req))) = Some current
       \<and> get_prop current ''photo'' = Inr (Some (JStr p))
       \<and> assets s p = None
       \<and> \<not> next_write_fails s1
      \<longrightarrow> fst (flat_delete_meal req s) = \<lparr>status = 200, reply = Ok current\<rparr>
        \<and> data_file (snd (flat_delete_meal req s)) =
            Stored (d\<lparr>meals := splice1 (meals d) (nat (the (parseInt (params_id req))))\<rparr>)
        \<and> assets (snd (flat_delete_meal req s)) = assets s)
   \<and> (readData s = (d, s1)
       \<and> in_range (parseInt (params_id req)) (meals d)
       \<and> js_index (meals d) (the (parseInt (params_id req))) = Some current
       \<and> get_prop current ''photo'' = Inr (Some (JStr p))
       \<and> assets s p = None
       \<and> \<not> next_write_fails s1
       \<and> body_meal req = Some (JObj kvs)
       \<and> \<not> refused (Some u)
       \<and> p \<noteq> ''/uploads/'' @ filename u
      \<longrightarrow> fst (flat_PUT_meals (Some u) req s) =
            \<lparr>status = 200,
              reply = Ok (JObj (assign_key kvs ''photo'' (Some (photo_ref (filename u)))))\<rparr>
        \<and> data_file (snd (flat_PUT_meals (Some u) req s)) =
            Stored (d\<lparr>meals := (meals d)[nat (the (parseInt (params_id req))) :=
                      JObj (assign_key kvs ''photo'' (Some (photo_ref (filename u))))]\<rparr>)
        \<and> assets (snd (flat_PUT_meals (Some u) req s)) =
            (assets s)(''/uploads/'' @ filename u \<mapsto> RegularFile))
   \<and> (findById lib (params_id rq) t = (Inr (Some (oid, doc)), t1)
       \<and> photo doc = Val p
       \<and> assets t p = None
       \<and> \<not> next_db_fails t1
      \<longrightarrow> fst (doc_delete_meal lib rq t) = \<lparr>status = 200, reply = Ok (MealDoc oid doc)\<rparr>
        \<and> meal_docs (snd (doc_delete_meal lib rq t)) = AList.delete oid (meal_docs t)
        \<and> assets (snd (doc_delete_meal lib rq t)) = assets t)
   \<and> (findById lib (params_id rq) t = (Inr (Some (oid, doc)), t1)
       \<and> photo doc = Val p
       \<and> assets t p = None
       \<and> \<not> next_db_fails t1
       \<and> body_meal rq = Some (JObj kvs')
       \<and> map_of kvs' ''_id'' = None
       \<and> \<not> refused (Some u)
       \<and> p \<noteq> ''/uploads/'' @ filename u
       \<and> meal_set lib (assign_key kvs' ''photo'' (Some (photo_ref (filename u)))) doc = Some doc'
      \<longrightarrow> fst (doc_PUT_meals lib (Some u) rq t) = \<lparr>status = 200, reply = Ok (MealDoc oid doc')\<rparr>
        \<and> meal_docs (snd (doc_PUT_meals lib (Some u) rq t)) = AList.update oid doc' (meal_docs t)
        \<and> assets (snd (doc_PUT_meals lib (Some u) rq t)) =
            (assets t)(''/uploads/'' @ filename u \<mapsto> RegularFile))"
proof -
  have fd: "readData s = (d, s1) \<Longrightarrow> assets s1 = assets s"
    by (rule readData_assets_eq)
  have dd: "findById lib (params_id rq) t = (Inr (Some (oid, doc)), t1) \<Longrightarrow>
            assets t1 = assets t \<and> meal_docs t1 = meal_docs t"
    using findById_state [of lib "params_id rq" t "Inr (Some (oid, doc))" t1] by simp
  show ?thesis
    using unlink_photo_absent [of a p]
          flat_delete_photo_gone [of s d s1 req current p]
          flat_PUT_photo_gone [of s d s1 req current p kvs u]
          doc_delete_photo_gone [of lib rq t oid doc t1 p]
          doc_PUT_photo_gone [of lib rq t oid doc t1 p kvs' u doc']
          fd dd
    by (simp add: ok_def)
qed

theorem absent_photo_file_is_skipped_witness:
  "unlink_photo (Some (JStr ''/uploads/old.jpg'')) Map.empty = Inr Map.empty
   \<and> \<not> refused (Some \<lparr>mimetype = ''image/jpeg'', bytes = 2048, filename = ''new.jpg''\<rparr>)
   \<and> fst (flat_delete_meal
        \<lparr>params_id = ''0'', body_meal = None, body_heading = None, uploaded = None\<rparr>
        \<lparr>assets = Map.empty,
          data_file = Stored
            \<lparr>meals = [JObj [(''name'', JStr ''Soup''), (''photo'', JStr ''/uploads/old.jpg'')]],
              headings = None\<rparr>,
          write_faults = []\<rparr>)
     = \<lparr>status = 200,
        reply = Ok (JObj [(''name'', JStr ''Soup''), (''photo'', JStr ''/uploads/old.jpg'')])\<rparr>
   \<and> data_file (snd (flat_delete_meal
        \<lparr>params_id = ''0'', body_meal = None, body_heading = None, uploaded = None\<rparr>
        \<lparr>assets = Map.empty,
          data_file = Stored
            \<lparr>meals = [JObj [(''name'', JStr ''Soup''), (''photo'', JStr ''/uploads/old.jpg'')]],
              headings = None\<rparr>,
          write_faults = []\<rparr>))
     = Stored \<lparr>meals = [], headings = None\<rparr>
   \<and> status (fst (flat_PUT_meals
        (Some \<lparr>mimetype = ''image/jpeg'', bytes = 2048, filename = ''new.jpg''\<rparr>)
        \<lparr>params_id = ''0'', body_meal = Some (JObj [(''name'', JStr ''Stew'')]),
          body_heading = None, uploaded = None\<rparr>
        \<lparr>assets = Map.empty,
          data_file = Stored
            \<lparr>meals = [JObj [(''name'', JStr ''Soup''), (''photo'', JStr ''/uploads/old.jpg'')]],
              headings = None\<rparr>,
          write_faults = []\<rparr>)) = 200
   \<and> data_file (snd (flat_PUT_meals
        (Some \<lparr>mimetype = ''image/jpeg'', bytes = 2048, filename = ''new.jpg''\<rparr>)
        \<lparr>params_id = ''0'', body_meal = Some (JObj [(''name'', JStr ''Stew'')]),
          body_heading = None, uploaded = None\<rparr>
        \<lparr>assets = Map.empty,
          data_file = Stored
            \<lparr>meals = [JObj [(''name'', JStr ''Soup''), (''photo'', JStr ''/uploads/old.jpg'')]],
              headings = None\<rparr>,
          write_faults = []\<rparr>))
     = Stored \<lparr>meals = [JObj [(''name'', JStr ''Stew''), (''photo'', JStr ''/uploads/new.jpg'')]],
               headings = None\<rparr>
   \<and> status (fst (doc_delete_meal sample_mongoose
        \<lparr>params_id = ''65f0c0ffee65f0c0ffee0001'', body_meal = None,
          body_heading = None, uploaded = None\<rparr>
        \<lparr>assets = Map.empty,
          meal_docs = [(''65f0c0ffee65f0c0ffee0001'',
                        \<lparr>name = Val ''Soup'', description = Absent,
                          photo = Val ''/uploads/old.jpg'', halfServe = Absent, heading = Absent\<rparr>)],
          heading_docs = [], db_faults = []\<rparr>)) = 200
   \<and> meal_docs (snd (doc_delete_meal sample_mongoose
        \<lparr>params_id = ''65f0c0ffee65f0c0ffee0001'', body_meal = None,
          body_heading = None, uploaded = None\<rparr>
        \<lparr>assets = Map.empty,
          meal_docs = [(''65f0c0ffee65f0c0ffee0001'',
                        \<lparr>name = Val ''Soup'', description = Absent,
                          photo = Val ''/uploads/old.jpg'', halfServe = Absent, heading = Absent\<rparr>)],
          heading_docs = [], db_faults = []\<rparr>)) = []
   \<and> fst (doc_PUT_meals sample_mongoose
        (Some \<lparr>mimetype = ''image/jpeg'', bytes = 2048, filename = ''new.jpg''\<rparr>)
        \<lparr>params_id = ''65f0c0ffee65f0c0ffee0001'',
          body_meal = Some (JObj [(''name'', JStr ''Stew'')]),
          body_heading = None, uploaded = None\<rparr>
        \<lparr>assets = Map.empty,
          meal_docs = [(''65f0c0ffee65f0c0ffee0001'',
                        \<lparr>name = Val ''Soup'', description = Absent,
                          photo = Val ''/uploads/old.jpg'', halfServe = Absent, heading = Absent\<rparr>)],
          heading_docs = [], db_faults = []\<rparr>)
     = \<lparr>status = 200,
        reply = Ok (MealDoc ''65f0c0ffee65f0c0ffee0001''
                  \<lparr>name = Val ''Stew'', description = Absent, photo = Val ''/uploads/new.jpg'',
                    halfServe = Absent, heading = Absent\<rparr>)\<rparr>
   \<and> meal_docs (snd (doc_PUT_meals sample_mongoose
        (Some \<lparr>mimetype = ''image/jpeg'', bytes = 2048, filename = ''new.jpg''\<rparr>)
        \<lparr>params_id = ''65f0c0ffee65f0c0ffee0001'',
          body_meal = Some (JObj [(''name'', JStr ''Stew'')]),
          body_heading = None, uploaded = None\<rparr>
        \<lparr>assets = Map.empty,
          meal_docs = [(''65f0c0ffee65f0c0ffee0001'',
                        \<lparr>name = Val ''Soup'', description = Absent,
                          photo = Val ''/uploads/old.jpg'', halfServe = Absent, heading = Absent\<rparr>)],
          heading_docs = [], db_faults = []\<rparr>))
     = [(''65f0c0ffee65f0c0ffee0001'',
         \<lparr>name = Val ''Stew'', description = Absent, photo = Val ''/uploads/new.jpg'',
           halfServe = Absent, heading = Absent\<rparr>)]"
proof -
  let ?p = "''/uploads/old.jpg''"
  let ?u = "\<lparr>mimetype = ''image/jpeg'', bytes = 2048, filename = ''new.jpg''\<rparr>"
  let ?cur = "JObj [(''name'', JStr ''Soup''), (''photo'', JStr ?p)]"
  let ?d = "\<lparr>meals = [?cur], headings = None\<rparr>"
  let ?s = "\<lparr>assets = Map.empty, data_file = Stored ?d, write_faults = []\<rparr>"
  let ?kvs = "[(''name'', JStr ''Stew'')]"
  let ?reqD = "\<lparr>params_id = ''0'', body_meal = None, body_heading = None, uploaded = None\<rparr>"
  let ?reqP = "\<lparr>params_id = ''0'', body_meal = Some (JObj ?kvs),
                 body_heading = None, uploaded = None\<rparr>"
  let ?oid = "''65f0c0ffee65f0c0ffee0001''"
  let ?doc = "\<lparr>name = Val ''Soup'', description = Absent, photo = Val ?p,
               halfServe = Absent, heading = Absent\<rparr>"
  let ?doc' = "\<lparr>name = Val ''Stew'', description = Absent, photo = Val ''/uploads/new.jpg'',
               halfServe = Absent, heading = Absent\<rparr>"
  let ?t = "\<lparr>assets = Map.empty, meal_docs = [(?oid, ?doc)], heading_docs = [], db_faults = []\<rparr>"
  let ?rqD = "\<lparr>params_id = ?oid, body_meal = None, body_heading = None, uploaded = None\<rparr>"
  let ?rqP = "\<lparr>params_id = ?oid, body_meal = Some (JObj ?kvs),
                body_heading = None, uploaded = None\<rparr>"
  have a1: "Map.empty ?p = (None :: fs_node option)"
    by simp
  have acc: "\<not> refused (Some ?u)"
    by (simp add: refused_def startsWith_def fileSize_limit_def)
  have new: "?p \<noteq> ''/uploads/'' @ filename ?u"
    by simp
  have f1: "readData ?s = (?d, ?s)"
    by (simp add: readData_def)
  have d2: "in_range (parseInt (params_id ?reqD)) (meals ?d)"
    and p2: "in_range (parseInt (params_id ?reqP)) (meals ?d)"
    by (simp_all add: parseInt_0 in_range_def)
  have d3: "js_index (meals ?d) (the (parseInt (params_id ?reqD))) = Some ?cur"
    and p3: "js_index (meals ?d) (the (parseInt (params_id ?reqP))) = Some ?cur"
    by (simp_all add: parseInt_0 js_index_def)
  have f4: "get_prop ?cur ''photo'' = Inr (Some (JStr ?p))"
    by simp
  have f5: "assets ?s ?p = None"
    by simp
  have f6: "\<not> next_write_fails ?s"
    by (simp add: next_write_fails_def)
  have p7: "body_meal ?reqP = Some (JObj ?kvs)"
    by simp
  have found: "findById sample_mongoose ?oid ?t = (Inr (Some (?oid, ?doc)), ?t)"
    by (simp add: findById_def sample_cast_id db_call_def)
  have e1: "findById sample_mongoose (params_id ?rqD) ?t = (Inr (Some (?oid, ?doc)), ?t)"
    and q1: "findById sample_mongoose (params_id ?rqP) ?t = (Inr (Some (?oid, ?doc)), ?t)"
    using found by simp_all
  have e2: "photo ?doc = Val ?p"
    by simp
  have e3: "assets ?t ?p = None"
    by simp
  have e4: "\<not> next_db_fails ?t"
    by (simp add: next_db_fails_def)
  have q5: "body_meal ?rqP = Some (JObj ?kvs) \<and> map_of ?kvs ''_id'' = None"
    by simp
  have q6: "meal_set sample_mongoose
              (assign_key ?kvs ''photo'' (Some (photo_ref (filename ?u)))) ?doc = Some ?doc'"
    by (simp add: meal_set_def assign_key_def set_path_def cast_String_def photo_ref_def)
  have del: "unlink_photo (Some (JStr ?p)) Map.empty = Inr Map.empty
      \<and> fst (flat_delete_meal ?reqD ?s) = \<lparr>status = 200, reply = Ok ?cur\<rparr>
      \<and> data_file (snd (flat_delete_meal ?reqD ?s)) =
          Stored (?d\<lparr>meals := splice1 (meals ?d) (nat (the (parseInt (params_id ?reqD))))\<rparr>)
      \<and> fst (doc_delete_meal sample_mongoose ?rqD ?t) = \<lparr>status = 200, reply = Ok (MealDoc ?oid ?doc)\<rparr>
      \<and> meal_docs (snd (doc_delete_meal sample_mongoose ?rqD ?t)) = AList.delete ?oid (meal_docs ?t)"
    using absent_photo_file_is_skipped
            [where a = Map.empty and p = ?p and s = ?s and d = ?d and ?s1.0 = ?s and req = ?reqD
               and current = ?cur and lib = sample_mongoose and rq = ?rqD and t = ?t
               and oid = ?oid and doc = ?doc and ?t1.0 = ?t]
          a1 f1 d2 d3 f4 f5 f6 e1 e2 e3 e4
    by blast
  have put: "fst (flat_PUT_meals (Some ?u) ?reqP ?s) =
               \<lparr>status = 200,
                 reply = Ok (JObj (assign_key ?kvs ''photo'' (Some (photo_ref (filename ?u)))))\<rparr>
      \<and> data_file (snd (flat_PUT_meals (Some ?u) ?reqP ?s)) =
            Stored (?d\<lparr>meals := (meals ?d)[nat (the (parseInt (params_id ?reqP))) :=
                      JObj (assign_key ?kvs ''photo'' (Some (photo_ref (filename ?u))))]\<rparr>)
      \<and> fst (doc_PUT_meals sample_mongoose (Some ?u) ?rqP ?t) = \<lparr>status = 200, reply = Ok (MealDoc ?oid ?doc')\<rparr>
      \<and> meal_docs (snd (doc_PUT_meals sample_mongoose (Some ?u) ?rqP ?t))
           = AList.update ?oid ?doc' (meal_docs ?t)"
    using absent_photo_file_is_skipped
            [where p = ?p and s = ?s and d = ?d and ?s1.0 = ?s and req = ?reqP
               and current = ?cur and kvs = ?kvs and u = ?u
               and lib = sample_mongoose and rq = ?rqP and t = ?t
               and oid = ?oid and doc = ?doc and ?t1.0 = ?t and kvs' = ?kvs and doc' = ?doc']
          f1 p2 p3 f4 f5 f6 p7 acc new q1 e2 e3 e4 q5 q6
    by blast
  from del put acc show ?thesis
    by (simp add: parseInt_0 splice1_def assign_key_def photo_ref_def)
qed

section \<open>C8: deleting a heading\<close>

text \<open>
  C8. \<^verbatim>\<open>DELETE /api/headings/:id\<close> leaves the collection of meals as it was, whatever
  the id and whatever the outcome (deleted, unknown id, cast error, rejected round
  trip): a meal that refers to the heading keeps its reference. No upload is touched
  either.
\<close>

theorem delete_heading_keeps_meals:
  "meal_docs (snd (doc_delete_heading lib req s)) = meal_docs s
   \<and> assets (snd (doc_delete_heading lib req s)) = assets s"
  by (simp add: doc_delete_heading_def db_call_def Let_def split: option.splits list.splits)

section \<open>C9: an unreadable data file is reset\<close>

text \<open>
  C9, as the code has it. When the data file cannot be read or parsed, \<^verbatim>\<open>readData\<close>
  returns the empty document \<open>{meals: [], headings: []}\<close> and reports no error, the
  uploads are untouched, and \<^verbatim>\<open>GET /api/data\<close> serves the empty document with
  status 200. The file itself holds the empty document afterwards unless the write of
  the reset fails too: \<^verbatim>\<open>readData\<close> ignores what \<^verbatim>\<open>writeData\<close> returns, and the file
  then stays as it was.
\<close>

theorem readData_resets_unreadable_store:
  assumes "\<not> readable (data_file s)"
  shows "fst (readData s) = initialData
       \<and> data_file (snd (readData s)) =
           (if next_write_fails s then data_file s else Stored initialData)
       \<and> assets (snd (readData s)) = assets s
       \<and> fst (flat_get_data s) = ok initialData"
  using assms
  by (cases "next_write_fails s")
     (simp_all add: readData_unreadable writeData_fails writeData_succeeds flat_get_data_def)

theorem readData_resets_unreadable_store_witness:
  "\<not> readable (data_file \<lparr>assets = Map.empty, data_file = InvalidJSON, write_faults = []\<rparr>)
   \<and> fst (readData \<lparr>assets = Map.empty, data_file = InvalidJSON, write_faults = []\<rparr>) = initialData
   \<and> data_file (snd (readData \<lparr>assets = Map.empty, data_file = InvalidJSON, write_faults = []\<rparr>))
       = Stored initialData"
  using readData_resets_unreadable_store
          [of "\<lparr>assets = Map.empty, data_file = InvalidJSON, write_faults = []\<rparr>"]
  by (simp add: next_write_fails_def)

text \<open>
  C9 as stated fails where the disk refuses the write of the reset: the data file is
  not JSON, \<^verbatim>\<open>readData\<close> returns the empty document, and the file is not overwritten.
\<close>

theorem readData_overwrite_counterexample:
  "\<not> readable (data_file \<lparr>assets = Map.empty, data_file = InvalidJSON, write_faults = [True]\<rparr>)
   \<and> data_file (snd (readData \<lparr>assets = Map.empty, data_file = InvalidJSON, write_faults = [True]\<rparr>))
       \<noteq> Stored initialData"
  by (simp add: readData_def writeData_def)

section \<open>C10: an index outside the array\<close>

text \<open>
  C10, as the code has it. In the flat-file variant, when \<^verbatim>\<open>parseInt\<close> of the \<^verbatim>\<open>:id\<close>
  segment is NaN or lies outside \<open>[0, number of meals)\<close>, the handlers of \<^verbatim>\<open>PUT\<close> and
  \<^verbatim>\<open>DELETE\<close> on \<^verbatim>\<open>/api/meals/:id\<close> answer 404 \<^verbatim>\<open>Meal not found\<close> (they read no element
  of the array: an element read outside it is \<^verbatim>\<open>undefined\<close>, and its \<^verbatim>\<open>photo\<close> would
  throw into the 400 of the \<^verbatim>\<open>catch\<close>) and touch no upload. The data file is as before
  when it was readable; when it was not, the \<^verbatim>\<open>readData\<close> that opens the handler has
  reset it to the empty document (unless that write failed). On the route of \<^verbatim>\<open>PUT\<close> the
  upload middleware runs first: an upload it refuses is answered with 500 and nothing
  changes, and an upload it accepts has been stored when the handler answers 404, and
  stays in the uploads directory.
\<close>

theorem flat_unknown_index_is_404:
  assumes "\<not> in_range (parseInt (params_id req)) (meals (fst (readData s)))"
  shows "fst (flat_delete_meal req s) = meal_not_found
       \<and> assets (snd (flat_delete_meal req s)) = assets s
       \<and> data_file (snd (flat_delete_meal req s)) =
           (if readable (data_file s) \<or> next_write_fails s then data_file s
            else Stored initialData)
       \<and> fst (flat_put_meal req s) = meal_not_found
       \<and> assets (snd (flat_put_meal req s)) = assets s
       \<and> data_file (snd (flat_put_meal req s)) =
           (if readable (data_file s) \<or> next_write_fails s then data_file s
            else Stored initialData)
       \<and> (if refused part
           then status (fst (flat_PUT_meals part req s)) = 500
                \<and> snd (flat_PUT_meals part req s) = s
           else fst (flat_PUT_meals part req s) = meal_not_found
                \<and> assets (snd (flat_PUT_meals part req s)) = stored_upload part (assets s)
                \<and> data_file (snd (flat_PUT_meals part req s)) =
                    (if readable (data_file s) \<or> next_write_fails s then data_file s
                     else Stored initialData))"
  using assms flat_PUT_refused [of part req s] flat_PUT_not_in_range [of req s part]
  by (simp add: flat_put_not_in_range flat_delete_not_in_range readData_data_file)

theorem flat_unknown_index_is_404_witness:
  "\<not> in_range (parseInt ''abc'')
       (meals (fst (readData \<lparr>assets = Map.empty,
          data_file = Stored \<lparr>meals = [JObj [(''name'', JStr ''Soup'')]], headings = None\<rparr>,
          write_faults = []\<rparr>)))
   \<and> \<not> refused (Some \<lparr>mimetype = ''image/png'', bytes = 2048, filename = ''new.png''\<rparr>)
   \<and> status (fst (flat_delete_meal
        \<lparr>params_id = ''abc'', body_meal = None, body_heading = None, uploaded = None\<rparr>
        \<lparr>assets = Map.empty,
          data_file = Stored \<lparr>meals = [JObj [(''name'', JStr ''Soup'')]], headings = None\<rparr>,
          write_faults = []\<rparr>)) = 404
   \<and> data_file (snd (flat_delete_meal
        \<lparr>params_id = ''abc'', body_meal = None, body_heading = None, uploaded = None\<rparr>
        \<lparr>assets = Map.empty,
          data_file = Stored \<lparr>meals = [JObj [(''name'', JStr ''Soup'')]], headings = None\<rparr>,
          write_faults = []\<rparr>))
       = Stored \<lparr>meals = [JObj [(''name'', JStr ''Soup'')]], headings = None\<rparr>
   \<and> status (fst (flat_PUT_meals
        (Some \<lparr>mimetype = ''image/png'', bytes = 2048, filename = ''new.png''\<rparr>)
        \<lparr>params_id = ''abc'', body_meal = None, body_heading = None, uploaded = None\<rparr>
        \<lparr>assets = Map.empty,
          data_file = Stored \<lparr>meals = [JObj [(''name'', JStr ''Soup'')]], headings = None\<rparr>,
          write_faults = []\<rparr>)) = 404
   \<and> assets (snd (flat_PUT_meals
        (Some \<lparr>mimetype = ''image/png'', bytes = 2048, filename = ''new.png''\<rparr>)
        \<lparr>params_id = ''abc'', body_meal = None, body_heading = None, uploaded = None\<rparr>
        \<lparr>assets = Map.empty,
          data_file = Stored \<lparr>meals = [JObj [(''name'', JStr ''Soup'')]], headings = None\<rparr>,
          write_faults = []\<rparr>))
       = [''/uploads/new.png'' \<mapsto> RegularFile]
   \<and> data_file (snd (flat_PUT_meals
        (Some \<lparr>mimetype = ''image/png'', bytes = 2048, filename = ''new.png''\<rparr>)
        \<lparr>params_id = ''abc'', body_meal = None, body_heading = None, uploaded = None\<rparr>
        \<lparr>assets = Map.empty,
          data_file = Stored \<lparr>meals = [JObj [(''name'', JStr ''Soup'')]], headings = None\<rparr>,
          write_faults = []\<rparr>))
       = Stored \<lparr>meals = [JObj [(''name'', JStr ''Soup'')]], headings = None\<rparr>"
proof -
  let ?s = "\<lparr>assets = Map.empty,
             data_file = Stored \<lparr>meals = [JObj [(''name'', JStr ''Soup'')]], headings = None\<rparr>,
             write_faults = []\<rparr>"
  let ?req = "\<lparr>params_id = ''abc'', body_meal = None, body_heading = None, uploaded = None\<rparr>"
  let ?part = "Some \<lparr>mimetype = ''image/png'', bytes = 2048, filename = ''new.png''\<rparr>"
  have nan: "parseInt ''abc'' = None"
    by (simp add: parseInt_def strip_sign_def strip_radix_def is_space_def digit_val_def)
  have pre: "\<not> in_range (parseInt (params_id ?req)) (meals (fst (readData ?s)))"
    by (simp add: nan in_range_def)
  have acc: "\<not> refused ?part"
    by (simp add: refused_def startsWith_def fileSize_limit_def)
  show ?thesis
    using flat_unknown_index_is_404 [OF pre, of ?part] pre acc
    by (simp add: meal_not_found_def stored_upload_def)
qed

text \<open>
  C10 as stated fails in two ways: where the data file is not JSON,
  \<^verbatim>\<open>PUT /api/meals/0\<close> answers 404 and the data file has been rewritten; and
  \<^verbatim>\<open>PUT /api/meals/abc\<close> with an image answers 404 and leaves the image in the uploads
  directory.
\<close>

theorem flat_unknown_index_counterexample:
  "\<not> in_range (parseInt ''0'')
       (meals (fst (readData \<lparr>assets = Map.empty, data_file = InvalidJSON, write_faults = []\<rparr>)))
   \<and> status (fst (flat_PUT_meals None
        \<lparr>params_id = ''0'', body_meal = None, body_heading = None, uploaded = None\<rparr>
        \<lparr>assets = Map.empty, data_file = InvalidJSON, write_faults = []\<rparr>)) = 404
   \<and> data_file (snd (flat_PUT_meals None
        \<lparr>params_id = ''0'', body_meal = None, body_heading = None, uploaded = None\<rparr>
        \<lparr>assets = Map.empty, data_file = InvalidJSON, write_faults = []\<rparr>))
       \<noteq> data_file \<lparr>assets = Map.empty, data_file = InvalidJSON, write_faults = []\<rparr>
   \<and> \<not> in_range (parseInt ''abc'')
       (meals (fst (readData \<lparr>assets = Map.empty, data_file = Stored initialData, write_faults = []\<rparr>)))
   \<and> status (fst (flat_PUT_meals
        (Some \<lparr>mimetype = ''image/png'', bytes = 2048, filename = ''new.png''\<rparr>)
        \<lparr>params_id = ''abc'', body_meal = None, body_heading = None, uploaded = None\<rparr>
        \<lparr>assets = Map.empty, data_file = Stored initialData, write_faults = []\<rparr>)) = 404
   \<and> assets \<lparr>assets = Map.empty, data_file = Stored initialData, write_faults = []\<rparr>
        ''/uploads/new.png'' = None
   \<and> assets (snd (flat_PUT_meals
        (Some \<lparr>mimetype = ''image/png'', bytes = 2048, filename = ''new.png''\<rparr>)
        \<lparr>params_id = ''abc'', body_meal = None, body_heading = None, uploaded = None\<rparr>
        \<lparr>assets = Map.empty, data_file = Stored initialData, write_faults = []\<rparr>))
        ''/uploads/new.png'' = Some RegularFile"
  by (simp add: flat_PUT_meals_def with_upload_def upload_single_def startsWith_def
        fileSize_limit_def flat_put_meal_def readData_def writeData_def initialData_def
        in_range_def parseInt_def strip_sign_def strip_radix_def is_space_def digit_val_def
        meal_not_found_def)

end
